theory Spec2Isabelle
  imports Complex_Main "HOL-Library.Log_Nat"
begin

section \<open>TrafficAlert home screen: the driving session and its query cycle\<close>

text \<open>
  The repository holds two versions of one React Native screen, \<^verbatim>\<open>HomeScreen\<close>:
  \<^verbatim>\<open>src/unnamed/part_000\<close> keeps the nearest hit in the state \<^verbatim>\<open>lastHit\<close> and
  renders it as \<^verbatim>\<open>subline\<close>; \<^verbatim>\<open>src/app/(tabs)/index.tsx\<close> keeps the rendered line
  itself in the state \<^verbatim>\<open>lastAlert\<close> and adds \<^verbatim>\<open>&demo=true\<close> to the request.
  Everything else (\<^verbatim>\<open>beep\<close>, \<^verbatim>\<open>startDriving\<close>, \<^verbatim>\<open>stopDriving\<close>, the shape of
  \<^verbatim>\<open>tick\<close>) is the same text in both files.

  Strings are byte strings in UTF-8: the accented letters and the ellipsis of the
  status labels are written byte by byte.
\<close>

subsection \<open>JavaScript numbers\<close>

text \<open>
  A \<^verbatim>\<open>number\<close> is a binary64 value: not-a-number, an infinity, or a finite value,
  kept here as the rational it denotes (so the two zeros are one).
\<close>

datatype number = NaN | PosInfinity | NegInfinity | Finite rat

text \<open>Rounding a rational to the nearest integer, ties to the even one.\<close>

definition round_half_even :: "rat \<Rightarrow> int" where
  "round_half_even y =
     (let f = \<lfloor>y\<rfloor>; d = y - of_int f
      in if d < 1 / 2 then f else if 1 / 2 < d then f + 1
         else if even f then f else f + 1)"

text \<open>The binary exponent of a positive rational \<open>a\<close>: the \<open>e\<close> with \<open>2^e \<le> a < 2^(e+1)\<close>.\<close>

definition binary_exponent :: "rat \<Rightarrow> int" where
  "binary_exponent a =
     (let k = bitlen (fst (quotient_of a)) - bitlen (snd (quotient_of a))
      in if 2 powi k \<le> a then k else k - 1)"

text \<open>
  The binary64 value of a real result (IEEE 754 round to nearest, ties to even): 53
  significant bits, exponents from -1022 (below that the spacing stays \<open>2^-1074\<close>), and
  overflow to an infinity from \<open>2^1024\<close> on.
\<close>

definition to_double :: "rat \<Rightarrow> number" where
  "to_double r =
     (if r = 0 then Finite 0
      else let a = \<bar>r\<bar>;
               e = max (binary_exponent a) (- 1022);
               u = 2 powi (e - 52);
               v = of_int (round_half_even (a / u)) * u
           in if 2 ^ 1024 \<le> v then (if r < 0 then NegInfinity else PosInfinity)
              else Finite (if r < 0 then - v else v))"

text \<open>The operator \<^verbatim>\<open>/\<close> on numbers.\<close>

fun number_div :: "number \<Rightarrow> number \<Rightarrow> number" where
  "number_div (Finite x) (Finite y) =
     (if y = 0 then (if x = 0 then NaN else if 0 < x then PosInfinity else NegInfinity)
      else to_double (x / y))"
| "number_div (Finite x) PosInfinity = Finite 0"
| "number_div (Finite x) NegInfinity = Finite 0"
| "number_div PosInfinity (Finite y) = (if 0 \<le> y then PosInfinity else NegInfinity)"
| "number_div NegInfinity (Finite y) = (if 0 \<le> y then NegInfinity else PosInfinity)"
| "number_div _ _ = NaN"

text \<open>Decimal digits of a natural number, as \<^verbatim>\<open>ToString\<close> writes an integer.\<close>

definition digit :: "nat \<Rightarrow> char" where
  "digit d = ''0123456789'' ! d"

fun decimal :: "nat \<Rightarrow> string" where
  "decimal n = (if n < 10 then [digit n] else decimal (n div 10) @ [digit (n mod 10)])"

declare decimal.simps [simp del]

text \<open>
  \<^verbatim>\<open>ToString\<close> of a number. For a finite value the runtime prints the shortest decimal
  that reads back as the same binary64 value; that algorithm is the runtime's, and is
  the parameter \<open>ts\<close> here.
\<close>

definition ToString :: "(rat \<Rightarrow> string) \<Rightarrow> number \<Rightarrow> string" where
  "ToString ts x =
     (case x of NaN \<Rightarrow> ''NaN'' | PosInfinity \<Rightarrow> ''Infinity''
      | NegInfinity \<Rightarrow> ''-Infinity'' | Finite r \<Rightarrow> ts r)"

text \<open>
  \<^verbatim>\<open>Number.prototype.toFixed(f)\<close>, after ECMA-262: a value that is not finite prints as
  \<^verbatim>\<open>ToString\<close> does; otherwise the sign, then for a magnitude from \<open>10^21\<close> on
  \<^verbatim>\<open>ToString\<close> again, and below it the integer \<open>n\<close> nearest to the magnitude times
  \<open>10^f\<close> (the larger of two), padded with zeros to \<open>f + 1\<close> digits and split by a point
  before the last \<open>f\<close> digits.
\<close>

definition toFixed :: "(rat \<Rightarrow> string) \<Rightarrow> number \<Rightarrow> nat \<Rightarrow> string" where
  "toFixed ts x f =
     (case x of
        Finite r \<Rightarrow>
          (let s = (if r < 0 then ''-'' else '''');
               a = \<bar>r\<bar>
           in if 10 ^ 21 \<le> a then s @ ts a
              else let n = nat \<lfloor>a * 10 ^ f + 1 / 2\<rfloor>;
                       m = decimal n;
                       m = (if length m \<le> f then replicate (f + 1 - length m) CHR ''0'' @ m
                            else m);
                       k = length m
                   in if f \<noteq> 0 then s @ take (k - f) m @ ''.'' @ drop (k - f) m
                      else s @ m)
      | _ \<Rightarrow> ToString ts x)"

subsection \<open>Data received from the backend and the device\<close>

text \<open>
  \<^verbatim>\<open>AlertEvent\<close> of \<^verbatim>\<open>part_000\<close>; a field marked \<^verbatim>\<open>?\<close> is an option. The fields
  \<^verbatim>\<open>id\<close> and \<^verbatim>\<open>type\<close> are \<open>event_id\<close> and \<open>event_type\<close> here.
\<close>

record AlertEvent =
  event_id :: string
  event_type :: string
  title :: "string option"
  cause :: "string option"
  road :: "string option"
  pkText :: "string option"
  pkKm :: "number option"
  direction :: "string option"
  orientation :: "string option"
  province :: "string option"
  municipality :: "string option"
  startTime :: "string option"
  source :: "string option"
  lat :: number
  lon :: number
  severity :: "number option"

text \<open>The event of \<^verbatim>\<open>index.tsx\<close>: \<^verbatim>\<open>{ id: string; title: string }\<close>.\<close>

record TabsEvent =
  tabs_id :: string
  tabs_title :: string

text \<open>\<^verbatim>\<open>AlertHit\<close>, over the event type of either file.\<close>

record 'e AlertHit =
  event :: 'e
  distanceMeters :: number

text \<open>\<^verbatim>\<open>pos.coords\<close> of the location provider.\<close>

record Coords =
  latitude :: number
  longitude :: number

text \<open>
  The \<^verbatim>\<open>Response\<close> of \<^verbatim>\<open>fetch\<close>: its status code, and \<^verbatim>\<open>ok\<close>, which the
  Fetch standard defines as a status from 200 to 299.
\<close>

record Response =
  res_status :: nat

definition ok :: "Response \<Rightarrow> bool" where
  "ok res = (200 \<le> res_status res \<and> res_status res \<le> 299)"

subsection \<open>Promises, completions and the calls made to collaborators\<close>

text \<open>How an awaited promise settles.\<close>

datatype 'a settled = Rejected | Resolved 'a

text \<open>How a block of statements completes (ECMA-262 completion records).\<close>

datatype completion = Normal | Return | Throw

text \<open>
  An \<^verbatim>\<open>async\<close> function runs until it completes or reaches an \<^verbatim>\<open>await\<close>, where it
  is suspended until the promise settles.
\<close>

datatype 'pc progress = Await 'pc | Done completion

datatype beep_pc = AwaitCreate | AwaitReplay

datatype tick_pc = AwaitPosition | AwaitFetch | AwaitJson | AwaitBeep beep_pc

type_synonym Timeout = nat
type_synonym Sound = nat

text \<open>
  The calls that leave the screen: the location request, the backend request with its
  URL, and the two calls of the audio library.
\<close>

datatype call = GetCurrentPosition | Fetch string | CreateAsync | ReplayAsync Sound

text \<open>What resumes a suspended \<^verbatim>\<open>tick\<close>: the settlement of the promise it awaits.\<close>

datatype 'e settlement =
    Position "Coords settled"
  | Fetched "Response settled"
  | Parsed "'e AlertHit list settled"
  | Created "Sound settled"
  | Replayed "unit settled"

subsection \<open>The state of the screen\<close>

text \<open>
  What both files share: the React state \<^verbatim>\<open>driving\<close>, \<^verbatim>\<open>status\<close>, \<^verbatim>\<open>busy\<close>, the refs
  \<^verbatim>\<open>timerRef\<close> and \<^verbatim>\<open>soundRef\<close>, and what the runtime holds for the screen: the armed
  intervals (each calls \<^verbatim>\<open>tick\<close> every 30000 ms), the next handle \<^verbatim>\<open>setInterval\<close>
  returns, the calls made so far, and the suspended \<^verbatim>\<open>tick\<close>s.

  A setter's write is applied at once. No function below reads the React state (only
  the refs), so a closure over an older render sees nothing different. A
  \<^verbatim>\<open>NodeJS.Timeout\<close> and an \<^verbatim>\<open>Audio.Sound\<close> are objects, so a ref is falsy exactly when
  it is \<^verbatim>\<open>null\<close>.
\<close>

record Session =
  driving :: bool
  status :: string
  busy :: bool
  timerRef :: "Timeout option"
  soundRef :: "Sound option"
  intervals :: "Timeout set"
  nextTimeout :: Timeout
  calls :: "call list"
  inflight :: "tick_pc list"

text \<open>\<^verbatim>\<open>part_000\<close>: \<^verbatim>\<open>useState<AlertHit | null>(null)\<close>.\<close>

record HomeScreen = Session +
  lastHit :: "AlertEvent AlertHit option"

text \<open>\<^verbatim>\<open>index.tsx\<close>: \<^verbatim>\<open>useState("-")\<close>.\<close>

record TabsScreen = Session +
  lastAlert :: string

definition oacute :: string where
  "oacute = [CHR 0xC3, CHR 0xB3]"

definition ellipsis :: string where
  "ellipsis = [CHR 0xE2, CHR 0x80, CHR 0xA6]"


definition initialHome :: HomeScreen where
  "initialHome =
     \<lparr>driving = False, status = ''Listo'', busy = False, timerRef = None, soundRef = None,
      intervals = {}, nextTimeout = 1, calls = [], inflight = [], lastHit = None\<rparr>"

definition initialTabs :: TabsScreen where
  "initialTabs =
     \<lparr>driving = False, status = ''Listo'', busy = False, timerRef = None, soundRef = None,
      intervals = {}, nextTimeout = 1, calls = [], inflight = [], lastAlert = ''-''\<rparr>"

definition call :: "call \<Rightarrow> 'a Session_scheme \<Rightarrow> 'a Session_scheme" where
  "call c w = w\<lparr>calls := calls w @ [c]\<rparr>"

subsection \<open>\<^verbatim>\<open>getBackendBaseUrl\<close>\<close>

text \<open>
  From \<^verbatim>\<open>process.env.EXPO_PUBLIC_API_URL\<close> (absent, or a string that is falsy when
  empty), \<^verbatim>\<open>Platform.OS\<close> and \<^verbatim>\<open>Device.isDevice\<close>.
\<close>

definition getBackendBaseUrl :: "string option \<Rightarrow> string \<Rightarrow> bool \<Rightarrow> string" where
  "getBackendBaseUrl envUrl os isDevice =
     (case envUrl of
        Some u \<Rightarrow> if u \<noteq> [] then u
                  else if os = ''web'' then ''http://localhost:8080/api''
                  else if os = ''android'' \<and> \<not> isDevice then ''http://10.0.2.2:8080/api''
                  else if os = ''ios'' \<and> \<not> isDevice then ''http://localhost:8080/api''
                  else ''http://192.168.1.40:8080/api''
      | None \<Rightarrow> if os = ''web'' then ''http://localhost:8080/api''
                  else if os = ''android'' \<and> \<not> isDevice then ''http://10.0.2.2:8080/api''
                  else if os = ''ios'' \<and> \<not> isDevice then ''http://localhost:8080/api''
                  else ''http://192.168.1.40:8080/api'')"

subsection \<open>\<^verbatim>\<open>beep\<close>\<close>

text \<open>
  \<^verbatim>\<open>await soundRef.current.replayAsync()\<close>: the call on a \<^verbatim>\<open>null\<close> ref throws.
\<close>

definition beep_replay :: "'a Session_scheme \<Rightarrow> beep_pc progress \<times> 'a Session_scheme" where
  "beep_replay w =
     (case soundRef w of
        None \<Rightarrow> (Done Throw, w)
      | Some s \<Rightarrow> (Await AwaitReplay, call (ReplayAsync s) w))"

text \<open>The \<^verbatim>\<open>try\<close> block, from its start and from each of its two awaits.\<close>

definition beep_try :: "'a Session_scheme \<Rightarrow> beep_pc progress \<times> 'a Session_scheme" where
  "beep_try w =
     (if soundRef w = None then (Await AwaitCreate, call CreateAsync w)
      else beep_replay w)"

definition beep_try_created ::
  "Sound settled \<Rightarrow> 'a Session_scheme \<Rightarrow> beep_pc progress \<times> 'a Session_scheme" where
  "beep_try_created r w =
     (case r of
        Rejected \<Rightarrow> (Done Throw, w)
      | Resolved sound \<Rightarrow> beep_replay (w\<lparr>soundRef := Some sound\<rparr>))"

definition beep_try_replayed ::
  "unit settled \<Rightarrow> 'a Session_scheme \<Rightarrow> beep_pc progress \<times> 'a Session_scheme" where
  "beep_try_replayed r w =
     (case r of
        Rejected \<Rightarrow> (Done Throw, w)
      | Resolved _ \<Rightarrow> (Done Normal, w))"

text \<open>\<^verbatim>\<open>catch { }\<close>: a throw of the block ends the function normally.\<close>

definition beep_catch ::
  "beep_pc progress \<times> 'a Session_scheme \<Rightarrow> beep_pc progress \<times> 'a Session_scheme" where
  "beep_catch pw = (case fst pw of Done Throw \<Rightarrow> (Done Normal, snd pw) | _ \<Rightarrow> pw)"

definition beep :: "'a Session_scheme \<Rightarrow> beep_pc progress \<times> 'a Session_scheme" where
  "beep w = beep_catch (beep_try w)"

definition beep_created ::
  "Sound settled \<Rightarrow> 'a Session_scheme \<Rightarrow> beep_pc progress \<times> 'a Session_scheme" where
  "beep_created r w = beep_catch (beep_try_created r w)"

definition beep_replayed ::
  "unit settled \<Rightarrow> 'a Session_scheme \<Rightarrow> beep_pc progress \<times> 'a Session_scheme" where
  "beep_replayed r w = beep_catch (beep_try_replayed r w)"

subsection \<open>\<^verbatim>\<open>tick\<close>\<close>

text \<open>
  \<^verbatim>\<open>catch (e) { setStatus("Error consultando backend") } finally { setBusy(false) }\<close>:
  while the \<^verbatim>\<open>try\<close> block is suspended nothing runs; when it throws, the handler runs
  and ends normally; on every completion the \<^verbatim>\<open>finally\<close> step runs.
\<close>

definition tick_handlers ::
  "tick_pc progress \<times> 'a Session_scheme \<Rightarrow> tick_pc progress \<times> 'a Session_scheme" where
  "tick_handlers pw =
     (case fst pw of
        Await pc \<Rightarrow> pw
      | Done Throw \<Rightarrow> (Done Normal, (snd pw)\<lparr>status := ''Error consultando backend'', busy := False\<rparr>)
      | Done c \<Rightarrow> (Done c, (snd pw)\<lparr>busy := False\<rparr>))"

text \<open>
  \<^verbatim>\<open>await beep()\<close>, the last statement of the \<^verbatim>\<open>try\<close> block: \<^verbatim>\<open>tick\<close> is suspended
  while \<^verbatim>\<open>beep\<close> is, throws if the promise of \<^verbatim>\<open>beep\<close> rejects, and otherwise reaches
  the end of the block.
\<close>

definition tick_await_beep ::
  "beep_pc progress \<times> 'a Session_scheme \<Rightarrow> tick_pc progress \<times> 'a Session_scheme" where
  "tick_await_beep pw =
     (case fst pw of
        Await b \<Rightarrow> (Await (AwaitBeep b), snd pw)
      | Done Throw \<Rightarrow> (Done Throw, snd pw)
      | Done _ \<Rightarrow> (Done Normal, snd pw))"

text \<open>
  From the call to the first \<^verbatim>\<open>await\<close>: \<^verbatim>\<open>setBusy(true)\<close>, the first status, the
  location request.
\<close>

definition tick_enter :: "'a Session_scheme \<Rightarrow> tick_pc progress \<times> 'a Session_scheme" where
  "tick_enter w =
     tick_handlers
       (Await AwaitPosition,
        call GetCurrentPosition
          ((w\<lparr>busy := True\<rparr>)\<lparr>status := ''Obteniendo ubicaci'' @ oacute @ ''n'' @ ellipsis\<rparr>))"

text \<open>The URL of \<^verbatim>\<open>part_000\<close> and of \<^verbatim>\<open>index.tsx\<close>; \<open>u\<close> is \<^verbatim>\<open>BACKEND_BASE_URL\<close>.\<close>

definition alerts_url :: "string \<Rightarrow> (rat \<Rightarrow> string) \<Rightarrow> Coords \<Rightarrow> string" where
  "alerts_url u ts c =
     u @ ''/alerts?lat='' @ ToString ts (latitude c) @ ''&lon='' @ ToString ts (longitude c)
       @ ''&radiusMeters=2000''"

definition tabs_alerts_url :: "string \<Rightarrow> (rat \<Rightarrow> string) \<Rightarrow> Coords \<Rightarrow> string" where
  "tabs_alerts_url u ts c =
     u @ ''/alerts?lat='' @ ToString ts (latitude c) @ ''&lon='' @ ToString ts (longitude c)
       @ ''&radiusMeters=2000&demo=true''"

text \<open>After the position: the second status and the backend request.\<close>

definition tick_position ::
  "string \<Rightarrow> (rat \<Rightarrow> string) \<Rightarrow> Coords settled \<Rightarrow> 'a Session_scheme
     \<Rightarrow> tick_pc progress \<times> 'a Session_scheme" where
  "tick_position u ts r w =
     tick_handlers
       (case r of
          Rejected \<Rightarrow> (Done Throw, w)
        | Resolved c \<Rightarrow>
            (Await AwaitFetch,
             call (Fetch (alerts_url u ts c))
               (w\<lparr>status := ''Consultando incidencias'' @ ellipsis\<rparr>)))"

definition tabs_tick_position ::
  "string \<Rightarrow> (rat \<Rightarrow> string) \<Rightarrow> Coords settled \<Rightarrow> 'a Session_scheme
     \<Rightarrow> tick_pc progress \<times> 'a Session_scheme" where
  "tabs_tick_position u ts r w =
     tick_handlers
       (case r of
          Rejected \<Rightarrow> (Done Throw, w)
        | Resolved c \<Rightarrow>
            (Await AwaitFetch,
             call (Fetch (tabs_alerts_url u ts c))
               (w\<lparr>status := ''Consultando incidencias'' @ ellipsis\<rparr>)))"

text \<open>After the response: the status check, then \<^verbatim>\<open>await res.json()\<close>.\<close>

definition tick_fetched ::
  "Response settled \<Rightarrow> 'a Session_scheme \<Rightarrow> tick_pc progress \<times> 'a Session_scheme" where
  "tick_fetched r w =
     tick_handlers
       (case r of
          Rejected \<Rightarrow> (Done Throw, w)
        | Resolved res \<Rightarrow>
            if \<not> ok res then (Done Return, w\<lparr>status := ''Backend '' @ decimal (res_status res)\<rparr>)
            else (Await AwaitJson, w))"

text \<open>After the body, \<^verbatim>\<open>part_000\<close>.\<close>

definition tick_parsed ::
  "AlertEvent AlertHit list settled \<Rightarrow> 'a HomeScreen_scheme
     \<Rightarrow> tick_pc progress \<times> 'a HomeScreen_scheme" where
  "tick_parsed r w =
     tick_handlers
       (case r of
          Rejected \<Rightarrow> (Done Throw, w)
        | Resolved hits \<Rightarrow>
            (case hits of
               [] \<Rightarrow> (Done Return, (w\<lparr>status := ''Sin incidencias cercanas''\<rparr>)\<lparr>lastHit := None\<rparr>)
             | hit # _ \<Rightarrow>
                 tick_await_beep (beep ((w\<lparr>lastHit := Some hit\<rparr>)\<lparr>status := ''ALERTA''\<rparr>))))"

text \<open>After the body, \<^verbatim>\<open>index.tsx\<close>: the message is built before it is stored.\<close>

definition tabs_msg :: "(rat \<Rightarrow> string) \<Rightarrow> TabsEvent AlertHit \<Rightarrow> string" where
  "tabs_msg ts hit =
     tabs_title (event hit) @ '' a ''
       @ toFixed ts (number_div (distanceMeters hit) (Finite 1000)) 1 @ '' km''"

definition tabs_tick_parsed ::
  "(rat \<Rightarrow> string) \<Rightarrow> TabsEvent AlertHit list settled \<Rightarrow> 'a TabsScreen_scheme
     \<Rightarrow> tick_pc progress \<times> 'a TabsScreen_scheme" where
  "tabs_tick_parsed ts r w =
     tick_handlers
       (case r of
          Rejected \<Rightarrow> (Done Throw, w)
        | Resolved hits \<Rightarrow>
            (case hits of
               [] \<Rightarrow> (Done Return, (w\<lparr>status := ''Sin incidencias cercanas''\<rparr>)\<lparr>lastAlert := ''-''\<rparr>)
             | hit # _ \<Rightarrow>
                 tick_await_beep
                   (beep ((w\<lparr>lastAlert := tabs_msg ts hit\<rparr>)\<lparr>status := ''ALERTA''\<rparr>))))"

text \<open>While \<^verbatim>\<open>beep\<close> runs: after the sound is created, and after it is played.\<close>

definition tick_created ::
  "Sound settled \<Rightarrow> 'a Session_scheme \<Rightarrow> tick_pc progress \<times> 'a Session_scheme" where
  "tick_created r w = tick_handlers (tick_await_beep (beep_created r w))"

definition tick_replayed ::
  "unit settled \<Rightarrow> 'a Session_scheme \<Rightarrow> tick_pc progress \<times> 'a Session_scheme" where
  "tick_replayed r w = tick_handlers (tick_await_beep (beep_replayed r w))"

text \<open>
  Resuming a suspended \<^verbatim>\<open>tick\<close> (of \<^verbatim>\<open>part_000\<close>, then of \<^verbatim>\<open>index.tsx\<close>) with the
  settlement of the promise it awaits; a settlement of another promise does not resume
  it.
\<close>

fun tick_resume ::
  "string \<Rightarrow> (rat \<Rightarrow> string) \<Rightarrow> tick_pc \<Rightarrow> AlertEvent settlement \<Rightarrow> 'a HomeScreen_scheme
     \<Rightarrow> (tick_pc progress \<times> 'a HomeScreen_scheme) option" where
  "tick_resume u ts AwaitPosition (Position r) w = Some (tick_position u ts r w)"
| "tick_resume u ts AwaitFetch (Fetched r) w = Some (tick_fetched r w)"
| "tick_resume u ts AwaitJson (Parsed r) w = Some (tick_parsed r w)"
| "tick_resume u ts (AwaitBeep AwaitCreate) (Created r) w = Some (tick_created r w)"
| "tick_resume u ts (AwaitBeep AwaitReplay) (Replayed r) w = Some (tick_replayed r w)"
| "tick_resume u ts _ _ w = None"

fun tabs_tick_resume ::
  "string \<Rightarrow> (rat \<Rightarrow> string) \<Rightarrow> tick_pc \<Rightarrow> TabsEvent settlement \<Rightarrow> 'a TabsScreen_scheme
     \<Rightarrow> (tick_pc progress \<times> 'a TabsScreen_scheme) option" where
  "tabs_tick_resume u ts AwaitPosition (Position r) w = Some (tabs_tick_position u ts r w)"
| "tabs_tick_resume u ts AwaitFetch (Fetched r) w = Some (tick_fetched r w)"
| "tabs_tick_resume u ts AwaitJson (Parsed r) w = Some (tabs_tick_parsed ts r w)"
| "tabs_tick_resume u ts (AwaitBeep AwaitCreate) (Created r) w = Some (tick_created r w)"
| "tabs_tick_resume u ts (AwaitBeep AwaitReplay) (Replayed r) w = Some (tick_replayed r w)"
| "tabs_tick_resume u ts _ _ w = None"

subsection \<open>One whole \<^verbatim>\<open>tick\<close>, given how each promise settles\<close>

record 'e Outcomes =
  position :: "Coords settled"
  response :: "Response settled"
  body :: "'e AlertHit list settled"
  created :: "Sound settled"
  replayed :: "unit settled"

text \<open>One resumption of \<^verbatim>\<open>part_000\<close>'s \<^verbatim>\<open>tick\<close>; a finished one stays finished.\<close>

fun tick_continue ::
  "string \<Rightarrow> (rat \<Rightarrow> string) \<Rightarrow> AlertEvent Outcomes
     \<Rightarrow> tick_pc progress \<times> 'a HomeScreen_scheme \<Rightarrow> tick_pc progress \<times> 'a HomeScreen_scheme" where
  "tick_continue u ts out (Await AwaitPosition, w) = tick_position u ts (position out) w"
| "tick_continue u ts out (Await AwaitFetch, w) = tick_fetched (response out) w"
| "tick_continue u ts out (Await AwaitJson, w) = tick_parsed (body out) w"
| "tick_continue u ts out (Await (AwaitBeep AwaitCreate), w) = tick_created (created out) w"
| "tick_continue u ts out (Await (AwaitBeep AwaitReplay), w) = tick_replayed (replayed out) w"
| "tick_continue u ts out (Done c, w) = (Done c, w)"

fun tabs_tick_continue ::
  "string \<Rightarrow> (rat \<Rightarrow> string) \<Rightarrow> TabsEvent Outcomes
     \<Rightarrow> tick_pc progress \<times> 'a TabsScreen_scheme \<Rightarrow> tick_pc progress \<times> 'a TabsScreen_scheme" where
  "tabs_tick_continue u ts out (Await AwaitPosition, w) = tabs_tick_position u ts (position out) w"
| "tabs_tick_continue u ts out (Await AwaitFetch, w) = tick_fetched (response out) w"
| "tabs_tick_continue u ts out (Await AwaitJson, w) = tabs_tick_parsed ts (body out) w"
| "tabs_tick_continue u ts out (Await (AwaitBeep AwaitCreate), w) = tick_created (created out) w"
| "tabs_tick_continue u ts out (Await (AwaitBeep AwaitReplay), w) = tick_replayed (replayed out) w"
| "tabs_tick_continue u ts out (Done c, w) = (Done c, w)"

text \<open>
  A \<^verbatim>\<open>tick\<close> has five awaits at most, each passed once: five resumptions finish it
  from wherever it is suspended.
\<close>

definition tick_finish ::
  "string \<Rightarrow> (rat \<Rightarrow> string) \<Rightarrow> AlertEvent Outcomes
     \<Rightarrow> tick_pc progress \<times> 'a HomeScreen_scheme \<Rightarrow> tick_pc progress \<times> 'a HomeScreen_scheme" where
  "tick_finish u ts out pw =
     tick_continue u ts out (tick_continue u ts out (tick_continue u ts out
       (tick_continue u ts out (tick_continue u ts out pw))))"

definition tick ::
  "string \<Rightarrow> (rat \<Rightarrow> string) \<Rightarrow> AlertEvent Outcomes \<Rightarrow> 'a HomeScreen_scheme
     \<Rightarrow> tick_pc progress \<times> 'a HomeScreen_scheme" where
  "tick u ts out w = tick_finish u ts out (tick_enter w)"

definition tabs_tick ::
  "string \<Rightarrow> (rat \<Rightarrow> string) \<Rightarrow> TabsEvent Outcomes \<Rightarrow> 'a TabsScreen_scheme
     \<Rightarrow> tick_pc progress \<times> 'a TabsScreen_scheme" where
  "tabs_tick u ts out w =
     tabs_tick_continue u ts out (tabs_tick_continue u ts out (tabs_tick_continue u ts out
       (tabs_tick_continue u ts out (tabs_tick_continue u ts out (tick_enter w)))))"

subsection \<open>What \<^verbatim>\<open>part_000\<close> renders under "Ultima alerta"\<close>



subsection \<open>\<^verbatim>\<open>startDriving\<close> and \<^verbatim>\<open>stopDriving\<close>\<close>

text \<open>
  \<^verbatim>\<open>setInterval(tick, 30000)\<close> arms a new interval and returns its handle;
  \<^verbatim>\<open>clearInterval\<close> disarms the interval of a handle, if it is armed.
\<close>

definition setInterval :: "'a Session_scheme \<Rightarrow> Timeout \<times> 'a Session_scheme" where
  "setInterval w =
     (nextTimeout w,
      w\<lparr>intervals := insert (nextTimeout w) (intervals w), nextTimeout := Suc (nextTimeout w)\<rparr>)"

definition clearInterval :: "Timeout \<Rightarrow> 'a Session_scheme \<Rightarrow> 'a Session_scheme" where
  "clearInterval t w = w\<lparr>intervals := intervals w - {t}\<rparr>"

text \<open>
  A call \<^verbatim>\<open>tick()\<close> that is not awaited: \<^verbatim>\<open>tick\<close> runs to its first \<^verbatim>\<open>await\<close> and
  stays suspended there, in flight.
\<close>

definition call_tick :: "'a Session_scheme \<Rightarrow> 'a Session_scheme" where
  "call_tick w =
     (case fst (tick_enter w) of
        Await pc \<Rightarrow> (snd (tick_enter w))\<lparr>inflight := inflight (snd (tick_enter w)) @ [pc]\<rparr>
      | Done _ \<Rightarrow> snd (tick_enter w))"

definition startDriving :: "'a Session_scheme \<Rightarrow> 'a Session_scheme" where
  "startDriving w =
     (let w1 = call_tick ((w\<lparr>driving := True\<rparr>)\<lparr>status := ''Conducci'' @ oacute @ ''n activa''\<rparr>);
          (t, w2) = setInterval w1
      in w2\<lparr>timerRef := Some t\<rparr>)"

definition stopDriving :: "'a Session_scheme \<Rightarrow> 'a Session_scheme" where
  "stopDriving w =
     (let w1 = w\<lparr>driving := False\<rparr>;
          w2 = (case timerRef w1 of Some t \<Rightarrow> clearInterval t w1 | None \<Rightarrow> w1)
      in ((w2\<lparr>timerRef := None\<rparr>)\<lparr>busy := False\<rparr>)\<lparr>status := ''Parado''\<rparr>)"

subsection \<open>The screen as an event loop\<close>

text \<open>
  What can happen to the mounted screen: a press on "Iniciar conduccion" (rendered only
  while \<^verbatim>\<open>driving\<close> is false), on "Detener" (rendered only while it is true), on
  "Probar ahora" (disabled unless \<^verbatim>\<open>driving\<close> and not \<^verbatim>\<open>busy\<close>), the cleanup of the
  mount effect (which is \<^verbatim>\<open>stopDriving\<close>), an armed interval firing, and the promise
  awaited by the \<open>i\<close>-th suspended \<^verbatim>\<open>tick\<close> settling. React renders the new state before
  the next event is handled.
\<close>

datatype 'r event =
    PressStart
  | PressStop
  | PressProbar
  | Cleanup
  | TimerFires Timeout
  | Settles nat 'r

text \<open>
  One event, for a screen whose suspended \<^verbatim>\<open>tick\<close>s are resumed by \<open>resume\<close>; an event
  that cannot happen in the state gives \<open>None\<close>.
\<close>

fun step_with ::
  "(tick_pc \<Rightarrow> 'r \<Rightarrow> 'a Session_scheme \<Rightarrow> (tick_pc progress \<times> 'a Session_scheme) option)
     \<Rightarrow> 'r event \<Rightarrow> 'a Session_scheme \<Rightarrow> 'a Session_scheme option" where
  "step_with resume PressStart w = (if \<not> driving w then Some (startDriving w) else None)"
| "step_with resume PressStop w = (if driving w then Some (stopDriving w) else None)"
| "step_with resume PressProbar w =
     (if driving w \<and> \<not> busy w then Some (call_tick w) else None)"
| "step_with resume Cleanup w = Some (stopDriving w)"
| "step_with resume (TimerFires t) w = (if t \<in> intervals w then Some (call_tick w) else None)"
| "step_with resume (Settles i r) w =
     (if i < length (inflight w) then
        (case resume (inflight w ! i) r w of
           None \<Rightarrow> None
         | Some (Await pc, w') \<Rightarrow> Some (w'\<lparr>inflight := (inflight w')[i := pc]\<rparr>)
         | Some (Done c, w') \<Rightarrow>
             Some (w'\<lparr>inflight := take i (inflight w') @ drop (Suc i) (inflight w')\<rparr>))
      else None)"

fun run_with ::
  "(tick_pc \<Rightarrow> 'r \<Rightarrow> 'a Session_scheme \<Rightarrow> (tick_pc progress \<times> 'a Session_scheme) option)
     \<Rightarrow> 'r event list \<Rightarrow> 'a Session_scheme \<Rightarrow> 'a Session_scheme option" where
  "run_with resume [] w = Some w"
| "run_with resume (e # es) w =
     (case step_with resume e w of None \<Rightarrow> None | Some w' \<Rightarrow> run_with resume es w')"

text \<open>The screen of \<^verbatim>\<open>part_000\<close> and the screen of \<^verbatim>\<open>index.tsx\<close>.\<close>

definition step ::
  "string \<Rightarrow> (rat \<Rightarrow> string) \<Rightarrow> AlertEvent settlement event \<Rightarrow> HomeScreen
     \<Rightarrow> HomeScreen option" where
  "step u ts = step_with (tick_resume u ts)"

definition run ::
  "string \<Rightarrow> (rat \<Rightarrow> string) \<Rightarrow> AlertEvent settlement event list \<Rightarrow> HomeScreen
     \<Rightarrow> HomeScreen option" where
  "run u ts = run_with (tick_resume u ts)"

definition tabs_step ::
  "string \<Rightarrow> (rat \<Rightarrow> string) \<Rightarrow> TabsEvent settlement event \<Rightarrow> TabsScreen
     \<Rightarrow> TabsScreen option" where
  "tabs_step u ts = step_with (tabs_tick_resume u ts)"


subsection \<open>The scenario of the specification\<close>

text \<open>
  Position (40.0, -3.0); the backend answers 200 with one hit, the event
  \<^verbatim>\<open>{id: "a1", title: "Incident"}\<close> at 1500 meters; the sound is created and played.
\<close>

definition scenario_hit :: "AlertEvent AlertHit" where
  "scenario_hit =
     \<lparr>event =
        \<lparr>event_id = ''a1'', event_type = [], title = Some ''Incident'', cause = None,
         road = None, pkText = None, pkKm = None, direction = None, orientation = None,
         province = None, municipality = None, startTime = None, source = None,
         lat = Finite 40, lon = Finite (- 3), severity = None\<rparr>,
      distanceMeters = Finite 1500\<rparr>"

definition scenario_coords :: Coords where
  "scenario_coords = \<lparr>latitude = Finite 40, longitude = Finite (- 3)\<rparr>"

definition scenario :: "AlertEvent Outcomes" where
  "scenario =
     \<lparr>position = Resolved scenario_coords, response = Resolved \<lparr>res_status = 200\<rparr>,
      body = Resolved [scenario_hit], created = Resolved 7, replayed = Resolved ()\<rparr>"

text \<open>The same position with the backend answering 500, for either file.\<close>

definition scenario_500 :: "'e Outcomes" where
  "scenario_500 =
     \<lparr>position = Resolved scenario_coords, response = Resolved \<lparr>res_status = 500\<rparr>,
      body = Rejected, created = Rejected, replayed = Rejected\<rparr>"

text \<open>The same position with the backend answering 200 and an empty array.\<close>

definition scenario_empty :: "'e Outcomes" where
  "scenario_empty =
     \<lparr>position = Resolved scenario_coords, response = Resolved \<lparr>res_status = 200\<rparr>,
      body = Resolved [], created = Rejected, replayed = Rejected\<rparr>"

text \<open>A screen that shows the hit of the scenario, and its counterpart of \<^verbatim>\<open>index.tsx\<close>.\<close>

definition showing_hit :: HomeScreen where
  "showing_hit = initialHome\<lparr>status := ''ALERTA'', lastHit := Some scenario_hit\<rparr>"

definition showing_alert :: TabsScreen where
  "showing_alert = initialTabs\<lparr>status := ''ALERTA'', lastAlert := ''Incident a 1.5 km''\<rparr>"

text \<open>The base URL and the printer of finite numbers used in closed examples.\<close>

definition scenario_url :: string where
  "scenario_url = getBackendBaseUrl None ''web'' False"

definition scenario_ts :: "rat \<Rightarrow> string" where
  "scenario_ts r = (if r = 40 then ''40'' else if r = - 3 then ''-3'' else ''?'')"

subsection \<open>Notions used to state the properties\<close>

text \<open>
  A promise awaited by the \<^verbatim>\<open>try\<close> block of \<^verbatim>\<open>tick\<close> rejects: the location request,
  the backend request, or the parsing of the body of a success response.
\<close>

definition try_rejects :: "'e Outcomes \<Rightarrow> bool" where
  "try_rejects out =
     (case position out of
        Rejected \<Rightarrow> True
      | Resolved c \<Rightarrow>
          (case response out of
             Rejected \<Rightarrow> True
           | Resolved res \<Rightarrow> ok res \<and> body out = Rejected))"

text \<open>The calls that are requests to the location provider or to the backend.\<close>

fun is_request :: "call \<Rightarrow> bool" where
  "is_request GetCurrentPosition = True"
| "is_request (Fetch url) = True"
| "is_request CreateAsync = False"
| "is_request (ReplayAsync s) = False"

text \<open>The position is not obtained at all.\<close>

definition scenario_no_position :: "'e Outcomes" where
  "scenario_no_position =
     \<lparr>position = Rejected, response = Rejected, body = Rejected, created = Rejected,
      replayed = Rejected\<rparr>"

text \<open>The scenario with an audio library that cannot create the sound.\<close>

definition scenario_mute :: "AlertEvent Outcomes" where
  "scenario_mute = scenario\<lparr>created := Rejected, replayed := Rejected\<rparr>"




text \<open>
  The suspended ticks that wait for \<^verbatim>\<open>Audio.Sound.createAsync\<close>: the creations
  pending.
\<close>

definition creating :: "'a Session_scheme \<Rightarrow> nat" where
  "creating w = length (filter (\<lambda>pc. pc = AwaitBeep AwaitCreate) (inflight w))"

text \<open>
  The events can happen in turn from the state, and before, between and after them at
  most one creation is pending.
\<close>

fun one_creation ::
  "(tick_pc \<Rightarrow> 'r \<Rightarrow> 'a Session_scheme \<Rightarrow> (tick_pc progress \<times> 'a Session_scheme) option)
     \<Rightarrow> 'r event list \<Rightarrow> 'a Session_scheme \<Rightarrow> bool" where
  "one_creation resume [] w = (creating w \<le> 1)"
| "one_creation resume (e # es) w =
     (creating w \<le> 1
      \<and> (case step_with resume e w of None \<Rightarrow> False | Some w' \<Rightarrow> one_creation resume es w'))"

text \<open>The calls made to the audio library.\<close>

definition audio_calls :: "'a Session_scheme \<Rightarrow> call list" where
  "audio_calls w = filter (\<lambda>c. \<not> is_request c) (calls w)"

text \<open>
  Two alert ticks that overlap: the session starts, the interval fires while the first
  \<^verbatim>\<open>tick\<close> still waits for its position, and both ticks get the position, the
  response and the body of the scenario before either sound is created.
\<close>

definition overlap_events :: "AlertEvent settlement event list" where
  "overlap_events =
     [PressStart, TimerFires 1,
      Settles 0 (Position (Resolved scenario_coords)),
      Settles 1 (Position (Resolved scenario_coords)),
      Settles 0 (Fetched (Resolved \<lparr>res_status = 200\<rparr>)),
      Settles 1 (Fetched (Resolved \<lparr>res_status = 200\<rparr>)),
      Settles 0 (Parsed (Resolved [scenario_hit])),
      Settles 1 (Parsed (Resolved [scenario_hit])),
      Settles 0 (Created (Resolved 7)),
      Settles 1 (Created (Resolved 8)),
      Settles 0 (Replayed (Resolved ())),
      Settles 0 (Replayed (Resolved ()))]"

text \<open>
  Two alert ticks one after the other: the \<^verbatim>\<open>tick\<close> of the start runs to its end with
  the scenario, then the interval fires and its \<^verbatim>\<open>tick\<close> does the same; and the screen
  after the first and after the second.
\<close>

definition first_alert_events :: "AlertEvent settlement event list" where
  "first_alert_events =
     [PressStart,
      Settles 0 (Position (Resolved scenario_coords)),
      Settles 0 (Fetched (Resolved \<lparr>res_status = 200\<rparr>)),
      Settles 0 (Parsed (Resolved [scenario_hit])),
      Settles 0 (Created (Resolved 7)),
      Settles 0 (Replayed (Resolved ()))]"

definition second_alert_events :: "AlertEvent settlement event list" where
  "second_alert_events =
     [TimerFires 1,
      Settles 0 (Position (Resolved scenario_coords)),
      Settles 0 (Fetched (Resolved \<lparr>res_status = 200\<rparr>)),
      Settles 0 (Parsed (Resolved [scenario_hit])),
      Settles 0 (Replayed (Resolved ()))]"

definition after_first_alert :: HomeScreen where
  "after_first_alert =
     \<lparr>driving = True, status = ''ALERTA'', busy = False, timerRef = Some 1,
      soundRef = Some 7, intervals = {1}, nextTimeout = 2,
      calls = [GetCurrentPosition, Fetch (alerts_url scenario_url scenario_ts scenario_coords),
               CreateAsync, ReplayAsync 7],
      inflight = [], lastHit = Some scenario_hit\<rparr>"

definition after_second_alert :: HomeScreen where
  "after_second_alert =
     after_first_alert
       \<lparr>calls := calls after_first_alert
          @ [GetCurrentPosition, Fetch (alerts_url scenario_url scenario_ts scenario_coords),
             ReplayAsync 7]\<rparr>"

section \<open>Properties\<close>

subsection \<open>Auxiliary facts\<close>

lemmas beep_defs = beep_def beep_created_def beep_replayed_def beep_try_def
  beep_try_created_def beep_try_replayed_def beep_replay_def beep_catch_def

lemmas tick_step_defs = tick_enter_def tick_position_def tick_fetched_def tick_parsed_def
  tick_created_def tick_replayed_def tick_handlers_def tick_await_beep_def call_def

lemmas tabs_step_defs = tick_enter_def tabs_tick_position_def tick_fetched_def
  tabs_tick_parsed_def tick_created_def tick_replayed_def tick_handlers_def
  tick_await_beep_def call_def





lemma decimal_500: "decimal 500 = ''500''"
  by (simp add: decimal.simps digit_def)











text \<open>The alert path of \<^verbatim>\<open>part_000\<close>, whatever the audio library does.\<close>

lemma tick_alert:
  assumes "position out = Resolved c" and "response out = Resolved res" and "ok res"
    and "body out = Resolved (hit # hits)"
  shows "lastHit (snd (tick u ts out w)) = Some hit"
    and "status (snd (tick u ts out w)) = ''ALERTA''"
    and "fst (tick u ts out w) = Done Normal"
  using assms
  by (simp_all add: tick_def tick_finish_def tick_step_defs beep_defs
      split: settled.splits list.splits option.splits)

text \<open>The path of a response that is not \<^verbatim>\<open>ok\<close>, in both files.\<close>

lemma tick_not_ok:
  assumes "position out = Resolved c" and "response out = Resolved res" and "\<not> ok res"
  shows "tick u ts out w =
     (Done Return,
      w\<lparr>status := ''Backend '' @ decimal (res_status res), busy := False,
        calls := calls w @ [GetCurrentPosition, Fetch (alerts_url u ts c)]\<rparr>)"
  using assms by (simp add: tick_def tick_finish_def tick_step_defs)

lemma tabs_tick_not_ok:
  assumes "position out = Resolved c" and "response out = Resolved res" and "\<not> ok res"
  shows "tabs_tick u ts out w =
     (Done Return,
      w\<lparr>status := ''Backend '' @ decimal (res_status res), busy := False,
        calls := calls w @ [GetCurrentPosition, Fetch (tabs_alerts_url u ts c)]\<rparr>)"
  using assms by (simp add: tabs_tick_def tabs_step_defs)

text \<open>The path of an empty array, in both files.\<close>

lemma tick_empty:
  assumes "position out = Resolved c" and "response out = Resolved res" and "ok res"
    and "body out = Resolved []"
  shows "tick u ts out w =
     (Done Return,
      w\<lparr>status := ''Sin incidencias cercanas'', busy := False, lastHit := None,
        calls := calls w @ [GetCurrentPosition, Fetch (alerts_url u ts c)]\<rparr>)"
  using assms by (simp add: tick_def tick_finish_def tick_step_defs)

lemma tabs_tick_empty:
  assumes "position out = Resolved c" and "response out = Resolved res" and "ok res"
    and "body out = Resolved []"
  shows "tabs_tick u ts out w =
     (Done Return,
      w\<lparr>status := ''Sin incidencias cercanas'', busy := False, lastAlert := ''-'',
        calls := calls w @ [GetCurrentPosition, Fetch (tabs_alerts_url u ts c)]\<rparr>)"
  using assms by (simp add: tabs_tick_def tabs_step_defs)

subsection \<open>The alert path\<close>



subsection \<open>A response that is not a success\<close>

text \<open>
  C2. When the backend answers with a status outside 200..299, \<^verbatim>\<open>tick\<close> (in both files)
  returns with the status label \<^verbatim>\<open>Backend\<close> followed by the decimal status code, the
  busy flag cleared and the two requests added to the calls made; nothing else of the
  screen changes, so the last alert is the previous one. Running the same failing
  \<^verbatim>\<open>tick\<close> again changes nothing but the calls made. For the status code 500 the label is
  \<^verbatim>\<open>Backend 500\<close>.
\<close>

theorem tick_http_error_keeps_last_alert:
  assumes "\<not> ok res"
    and "position out = Resolved c" and "response out = Resolved res"
    and "position tout = Resolved c" and "response tout = Resolved res"
  shows "tick u ts out w =
      (Done Return,
       w\<lparr>status := ''Backend '' @ decimal (res_status res), busy := False,
         calls := calls w @ [GetCurrentPosition, Fetch (alerts_url u ts c)]\<rparr>)
    \<and> lastHit (snd (tick u ts out w)) = lastHit w
    \<and> snd (tick u ts out (snd (tick u ts out w))) =
        (snd (tick u ts out w))
          \<lparr>calls := calls (snd (tick u ts out w))
             @ [GetCurrentPosition, Fetch (alerts_url u ts c)]\<rparr>
    \<and> tabs_tick u ts tout v =
      (Done Return,
       v\<lparr>status := ''Backend '' @ decimal (res_status res), busy := False,
         calls := calls v @ [GetCurrentPosition, Fetch (tabs_alerts_url u ts c)]\<rparr>)
    \<and> lastAlert (snd (tabs_tick u ts tout v)) = lastAlert v
    \<and> snd (tabs_tick u ts tout (snd (tabs_tick u ts tout v))) =
        (snd (tabs_tick u ts tout v))
          \<lparr>calls := calls (snd (tabs_tick u ts tout v))
             @ [GetCurrentPosition, Fetch (tabs_alerts_url u ts c)]\<rparr>
    \<and> (res_status res = 500 \<longrightarrow>
          status (snd (tick u ts out w)) = ''Backend 500''
          \<and> status (snd (tabs_tick u ts tout v)) = ''Backend 500'')"
proof -
  note home = tick_not_ok [OF assms(2) assms(3) assms(1)]
  note tabs = tabs_tick_not_ok [OF assms(4) assms(5) assms(1)]
  have h2: "lastHit (snd (tick u ts out w)) = lastHit w"
    by (simp add: home)
  have h3: "snd (tick u ts out (snd (tick u ts out w))) =
        (snd (tick u ts out w))
          \<lparr>calls := calls (snd (tick u ts out w))
             @ [GetCurrentPosition, Fetch (alerts_url u ts c)]\<rparr>"
    by (simp add: home)
  have t2: "lastAlert (snd (tabs_tick u ts tout v)) = lastAlert v"
    by (simp add: tabs)
  have t3: "snd (tabs_tick u ts tout (snd (tabs_tick u ts tout v))) =
        (snd (tabs_tick u ts tout v))
          \<lparr>calls := calls (snd (tabs_tick u ts tout v))
             @ [GetCurrentPosition, Fetch (tabs_alerts_url u ts c)]\<rparr>"
    by (simp add: tabs)
  have five: "status (snd (tick u ts out w)) = ''Backend 500''
          \<and> status (snd (tabs_tick u ts tout v)) = ''Backend 500''"
    if "res_status res = 500"
    using that by (simp add: home tabs decimal_500)
  from home [of u ts w] tabs [of u ts v] h2 h3 t2 t3 five show ?thesis
    by blast
qed

theorem tick_http_error_keeps_last_alert_witness:
  "\<not> ok \<lparr>res_status = 500\<rparr>
    \<and> position (scenario_500 :: AlertEvent Outcomes) = Resolved scenario_coords
    \<and> response (scenario_500 :: AlertEvent Outcomes) = Resolved \<lparr>res_status = 500\<rparr>
    \<and> position (scenario_500 :: TabsEvent Outcomes) = Resolved scenario_coords
    \<and> response (scenario_500 :: TabsEvent Outcomes) = Resolved \<lparr>res_status = 500\<rparr>
    \<and> res_status \<lparr>res_status = 500\<rparr> = 500
    \<and> fst (tick scenario_url scenario_ts scenario_500 showing_hit) = Done Return
    \<and> status (snd (tick scenario_url scenario_ts scenario_500 showing_hit)) = ''Backend 500''
    \<and> busy (snd (tick scenario_url scenario_ts scenario_500 showing_hit)) = False
    \<and> lastHit (snd (tick scenario_url scenario_ts scenario_500 showing_hit)) = Some scenario_hit
    \<and> calls (snd (tick scenario_url scenario_ts scenario_500 showing_hit)) =
        [GetCurrentPosition,
         Fetch ''http://localhost:8080/api/alerts?lat=40&lon=-3&radiusMeters=2000'']
    \<and> status (snd (tabs_tick scenario_url scenario_ts scenario_500 showing_alert)) = ''Backend 500''
    \<and> lastAlert (snd (tabs_tick scenario_url scenario_ts scenario_500 showing_alert))
        = ''Incident a 1.5 km''
    \<and> calls (snd (tabs_tick scenario_url scenario_ts scenario_500 showing_alert)) =
        [GetCurrentPosition,
         Fetch ''http://localhost:8080/api/alerts?lat=40&lon=-3&radiusMeters=2000&demo=true'']"
proof -
  have n: "\<not> ok \<lparr>res_status = 500\<rparr>"
    by (simp add: ok_def)
  have p: "position (scenario_500 :: AlertEvent Outcomes) = Resolved scenario_coords"
    and r: "response (scenario_500 :: AlertEvent Outcomes) = Resolved \<lparr>res_status = 500\<rparr>"
    and p': "position (scenario_500 :: TabsEvent Outcomes) = Resolved scenario_coords"
    and r': "response (scenario_500 :: TabsEvent Outcomes) = Resolved \<lparr>res_status = 500\<rparr>"
    by (simp_all add: scenario_500_def)
  note main = tick_http_error_keeps_last_alert
    [OF n p r p' r', of scenario_url scenario_ts showing_hit showing_alert]
  have url: "alerts_url scenario_url scenario_ts scenario_coords =
      ''http://localhost:8080/api/alerts?lat=40&lon=-3&radiusMeters=2000''"
    and url': "tabs_alerts_url scenario_url scenario_ts scenario_coords =
      ''http://localhost:8080/api/alerts?lat=40&lon=-3&radiusMeters=2000&demo=true''"
    by (simp_all add: alerts_url_def tabs_alerts_url_def ToString_def scenario_url_def
        scenario_ts_def scenario_coords_def getBackendBaseUrl_def)
  from main have home:
    "tick scenario_url scenario_ts scenario_500 showing_hit =
      (Done Return,
       showing_hit\<lparr>status := ''Backend '' @ decimal (res_status \<lparr>res_status = 500\<rparr>),
         busy := False,
         calls := calls showing_hit
           @ [GetCurrentPosition, Fetch (alerts_url scenario_url scenario_ts scenario_coords)]\<rparr>)"
    by blast
  from main have tabs:
    "tabs_tick scenario_url scenario_ts scenario_500 showing_alert =
      (Done Return,
       showing_alert\<lparr>status := ''Backend '' @ decimal (res_status \<lparr>res_status = 500\<rparr>),
         busy := False,
         calls := calls showing_alert
           @ [GetCurrentPosition,
              Fetch (tabs_alerts_url scenario_url scenario_ts scenario_coords)]\<rparr>)"
    by blast
  have
    "fst (tick scenario_url scenario_ts scenario_500 showing_hit) = Done Return"
    "status (snd (tick scenario_url scenario_ts scenario_500 showing_hit)) = ''Backend 500''"
    "busy (snd (tick scenario_url scenario_ts scenario_500 showing_hit)) = False"
    "lastHit (snd (tick scenario_url scenario_ts scenario_500 showing_hit)) = Some scenario_hit"
    "calls (snd (tick scenario_url scenario_ts scenario_500 showing_hit)) =
        [GetCurrentPosition,
         Fetch ''http://localhost:8080/api/alerts?lat=40&lon=-3&radiusMeters=2000'']"
    "status (snd (tabs_tick scenario_url scenario_ts scenario_500 showing_alert)) = ''Backend 500''"
    "lastAlert (snd (tabs_tick scenario_url scenario_ts scenario_500 showing_alert))
        = ''Incident a 1.5 km''"
    "calls (snd (tabs_tick scenario_url scenario_ts scenario_500 showing_alert)) =
        [GetCurrentPosition,
         Fetch ''http://localhost:8080/api/alerts?lat=40&lon=-3&radiusMeters=2000&demo=true'']"
    unfolding home tabs
    by (simp_all add: url url' decimal_500 showing_hit_def showing_alert_def
        initialHome_def initialTabs_def)
  with n p r p' r' show ?thesis by simp
qed

subsection \<open>An empty array\<close>

text \<open>
  C3. When the backend answers with a success status and an empty array, \<^verbatim>\<open>tick\<close>
  clears the last alert (\<^verbatim>\<open>null\<close> in \<^verbatim>\<open>part_000\<close>, the placeholder \<^verbatim>\<open>-\<close> in
  \<^verbatim>\<open>index.tsx\<close>) and sets the status \<^verbatim>\<open>Sin incidencias cercanas\<close>, whatever the
  coordinates and whatever the screen showed before.
\<close>

theorem tick_empty_clears_last_alert:
  assumes "ok res"
    and "position out = Resolved c" and "response out = Resolved res"
    and "body out = Resolved []"
    and "position tout = Resolved c" and "response tout = Resolved res"
    and "body tout = Resolved []"
  shows "lastHit (snd (tick u ts out w)) = None
    \<and> status (snd (tick u ts out w)) = ''Sin incidencias cercanas''
    \<and> fst (tick u ts out w) = Done Return
    \<and> lastAlert (snd (tabs_tick u ts tout v)) = ''-''
    \<and> status (snd (tabs_tick u ts tout v)) = ''Sin incidencias cercanas''
    \<and> fst (tabs_tick u ts tout v) = Done Return"
  by (simp add: tick_empty [OF assms(2) assms(3) assms(1) assms(4)]
      tabs_tick_empty [OF assms(5) assms(6) assms(1) assms(7)])

theorem tick_empty_clears_last_alert_witness:
  "ok \<lparr>res_status = 200\<rparr>
    \<and> position (scenario_empty :: AlertEvent Outcomes) = Resolved scenario_coords
    \<and> response (scenario_empty :: AlertEvent Outcomes) = Resolved \<lparr>res_status = 200\<rparr>
    \<and> body (scenario_empty :: AlertEvent Outcomes) = Resolved []
    \<and> position (scenario_empty :: TabsEvent Outcomes) = Resolved scenario_coords
    \<and> response (scenario_empty :: TabsEvent Outcomes) = Resolved \<lparr>res_status = 200\<rparr>
    \<and> body (scenario_empty :: TabsEvent Outcomes) = Resolved []
    \<and> lastHit showing_hit = Some scenario_hit
    \<and> lastHit (snd (tick scenario_url scenario_ts scenario_empty showing_hit)) = None
    \<and> status (snd (tick scenario_url scenario_ts scenario_empty showing_hit))
        = ''Sin incidencias cercanas''
    \<and> lastAlert showing_alert = ''Incident a 1.5 km''
    \<and> lastAlert (snd (tabs_tick scenario_url scenario_ts scenario_empty showing_alert)) = ''-''
    \<and> status (snd (tabs_tick scenario_url scenario_ts scenario_empty showing_alert))
        = ''Sin incidencias cercanas''"
proof -
  have k: "ok \<lparr>res_status = 200\<rparr>"
    by (simp add: ok_def)
  have p: "position (scenario_empty :: AlertEvent Outcomes) = Resolved scenario_coords"
    and r: "response (scenario_empty :: AlertEvent Outcomes) = Resolved \<lparr>res_status = 200\<rparr>"
    and b: "body (scenario_empty :: AlertEvent Outcomes) = Resolved []"
    and p': "position (scenario_empty :: TabsEvent Outcomes) = Resolved scenario_coords"
    and r': "response (scenario_empty :: TabsEvent Outcomes) = Resolved \<lparr>res_status = 200\<rparr>"
    and b': "body (scenario_empty :: TabsEvent Outcomes) = Resolved []"
    by (simp_all add: scenario_empty_def)
  have before: "lastHit showing_hit = Some scenario_hit"
    "lastAlert showing_alert = ''Incident a 1.5 km''"
    by (simp_all add: showing_hit_def showing_alert_def)
  from tick_empty_clears_last_alert
    [OF k p r b p' r' b', of scenario_url scenario_ts showing_hit showing_alert]
    k p r b p' r' b' before
  show ?thesis by simp
qed

subsection \<open>The busy flag\<close>

text \<open>
  C7. \<^verbatim>\<open>tick\<close> sets the busy flag on entry, and however the awaited promises settle
  (an error status from the backend, an empty array, an alert, a rejection anywhere) it
  runs to its end and leaves the busy flag false; so it is in both files.
\<close>

theorem tick_clears_busy:
  "busy (snd (tick_enter w)) = True
    \<and> fst (tick_enter w) = Await AwaitPosition
    \<and> busy (snd (tick u ts out w)) = False
    \<and> (fst (tick u ts out w) = Done Normal \<or> fst (tick u ts out w) = Done Return)
    \<and> busy (snd (tabs_tick u ts tout v)) = False
    \<and> (fst (tabs_tick u ts tout v) = Done Normal \<or> fst (tabs_tick u ts tout v) = Done Return)"
proof -
  have enter: "busy (snd (tick_enter w)) = True \<and> fst (tick_enter w) = Await AwaitPosition"
    by (simp add: tick_enter_def tick_handlers_def call_def)
  have home: "busy (snd (tick u ts out w)) = False"
    by (simp add: tick_def tick_finish_def tick_step_defs beep_defs
        split: settled.splits list.splits option.splits)
  have home_done: "fst (tick u ts out w) = Done Normal \<or> fst (tick u ts out w) = Done Return"
    by (simp add: tick_def tick_finish_def tick_step_defs beep_defs
        split: settled.splits list.splits option.splits)
  have tabs: "busy (snd (tabs_tick u ts tout v)) = False"
    by (simp add: tabs_tick_def tabs_step_defs beep_defs
        split: settled.splits list.splits option.splits)
  have tabs_done:
    "fst (tabs_tick u ts tout v) = Done Normal \<or> fst (tabs_tick u ts tout v) = Done Return"
    by (simp add: tabs_tick_def tabs_step_defs beep_defs
        split: settled.splits list.splits option.splits)
  from enter home home_done tabs tabs_done show ?thesis by blast
qed

subsection \<open>Rejected promises\<close>

text \<open>What no \<^verbatim>\<open>tick\<close> touches: the driving flag, the timer and the suspended ticks.\<close>

lemma tick_frame:
  "driving (snd (tick u ts out w)) = driving w"
  "timerRef (snd (tick u ts out w)) = timerRef w"
  "intervals (snd (tick u ts out w)) = intervals w"
  "inflight (snd (tick u ts out w)) = inflight w"
  by (simp_all add: tick_def tick_finish_def tick_step_defs beep_defs
      split: settled.splits list.splits option.splits)

lemma tabs_tick_frame:
  "driving (snd (tabs_tick u ts out w)) = driving w"
  "timerRef (snd (tabs_tick u ts out w)) = timerRef w"
  "intervals (snd (tabs_tick u ts out w)) = intervals w"
  "inflight (snd (tabs_tick u ts out w)) = inflight w"
  by (simp_all add: tabs_tick_def tabs_step_defs beep_defs
      split: settled.splits list.splits option.splits)

lemma tick_never_throws: "fst (tick u ts out w) \<noteq> Done Throw"
  by (simp add: tick_def tick_finish_def tick_step_defs beep_defs
      split: settled.splits list.splits option.splits)

lemma tabs_tick_never_throws: "fst (tabs_tick u ts out w) \<noteq> Done Throw"
  by (simp add: tabs_tick_def tabs_step_defs beep_defs
      split: settled.splits list.splits option.splits)

text \<open>
  C6. When the location request, the backend request or the parsing of the body rejects,
  \<^verbatim>\<open>tick\<close> (in both files) ends normally with the status
  \<^verbatim>\<open>Error consultando backend\<close>. And however any promise settles, the audio ones
  included, the promise of \<^verbatim>\<open>tick\<close> never rejects, and \<^verbatim>\<open>tick\<close> leaves the driving flag,
  the timer handle and the armed intervals as they were.
\<close>

theorem tick_catches_rejections:
  assumes "try_rejects out" and "try_rejects tout"
  shows "status (snd (tick u ts out w)) = ''Error consultando backend''
    \<and> fst (tick u ts out w) = Done Normal
    \<and> status (snd (tabs_tick u ts tout v)) = ''Error consultando backend''
    \<and> fst (tabs_tick u ts tout v) = Done Normal
    \<and> fst (tick u ts any w) \<noteq> Done Throw
    \<and> driving (snd (tick u ts any w)) = driving w
    \<and> timerRef (snd (tick u ts any w)) = timerRef w
    \<and> intervals (snd (tick u ts any w)) = intervals w
    \<and> fst (tabs_tick u ts tany v) \<noteq> Done Throw
    \<and> driving (snd (tabs_tick u ts tany v)) = driving v
    \<and> timerRef (snd (tabs_tick u ts tany v)) = timerRef v
    \<and> intervals (snd (tabs_tick u ts tany v)) = intervals v"
proof -
  have home: "status (snd (tick u ts out w)) = ''Error consultando backend''
      \<and> fst (tick u ts out w) = Done Normal"
    using assms(1)
    by (simp add: try_rejects_def tick_def tick_finish_def tick_step_defs
        split: settled.splits)
  have tabs: "status (snd (tabs_tick u ts tout v)) = ''Error consultando backend''
      \<and> fst (tabs_tick u ts tout v) = Done Normal"
    using assms(2)
    by (simp add: try_rejects_def tabs_tick_def tabs_step_defs split: settled.splits)
  from home tabs tick_never_throws [of u ts any w] tabs_tick_never_throws [of u ts tany v]
  show ?thesis
    by (simp add: tick_frame tabs_tick_frame)
qed

theorem tick_catches_rejections_witness:
  "try_rejects (scenario_no_position :: AlertEvent Outcomes)
    \<and> try_rejects (scenario_no_position :: TabsEvent Outcomes)
    \<and> status (snd (tick scenario_url scenario_ts scenario_no_position showing_hit))
        = ''Error consultando backend''
    \<and> fst (tick scenario_url scenario_ts scenario_no_position showing_hit) = Done Normal
    \<and> status (snd (tabs_tick scenario_url scenario_ts scenario_no_position showing_alert))
        = ''Error consultando backend''
    \<and> fst (tabs_tick scenario_url scenario_ts scenario_no_position showing_alert) = Done Normal"
proof -
  have a: "try_rejects (scenario_no_position :: AlertEvent Outcomes)"
    and b: "try_rejects (scenario_no_position :: TabsEvent Outcomes)"
    by (simp_all add: try_rejects_def scenario_no_position_def)
  from tick_catches_rejections
    [OF a b, of scenario_url scenario_ts showing_hit showing_alert scenario scenario_500] a b
  show ?thesis by simp
qed

subsection \<open>The notification player\<close>

text \<open>The calls one \<^verbatim>\<open>tick\<close> of \<^verbatim>\<open>part_000\<close> makes, in order.\<close>

lemma tick_calls:
  "calls (snd (tick u ts out w)) =
     calls w @ GetCurrentPosition #
       (case position out of
          Rejected \<Rightarrow> []
        | Resolved c \<Rightarrow>
            Fetch (alerts_url u ts c) #
              (case response out of
                 Rejected \<Rightarrow> []
               | Resolved res \<Rightarrow>
                   (case body out of
                      Rejected \<Rightarrow> []
                    | Resolved hits \<Rightarrow>
                        if ok res \<and> hits \<noteq> [] then
                          (case soundRef w of
                             Some s \<Rightarrow> [ReplayAsync s]
                           | None \<Rightarrow>
                               CreateAsync #
                                 (case created out of
                                    Rejected \<Rightarrow> []
                                  | Resolved s \<Rightarrow> [ReplayAsync s]))
                        else [])))"
  by (simp add: tick_def tick_finish_def tick_step_defs beep_defs
      split: settled.splits list.splits option.splits)

lemma tabs_tick_calls:
  "calls (snd (tabs_tick u ts out w)) =
     calls w @ GetCurrentPosition #
       (case position out of
          Rejected \<Rightarrow> []
        | Resolved c \<Rightarrow>
            Fetch (tabs_alerts_url u ts c) #
              (case response out of
                 Rejected \<Rightarrow> []
               | Resolved res \<Rightarrow>
                   (case body out of
                      Rejected \<Rightarrow> []
                    | Resolved hits \<Rightarrow>
                        if ok res \<and> hits \<noteq> [] then
                          (case soundRef w of
                             Some s \<Rightarrow> [ReplayAsync s]
                           | None \<Rightarrow>
                               CreateAsync #
                                 (case created out of
                                    Rejected \<Rightarrow> []
                                  | Resolved s \<Rightarrow> [ReplayAsync s]))
                        else [])))"
  by (simp add: tabs_tick_def tabs_step_defs beep_defs
      split: settled.splits list.splits option.splits)

lemma tick_soundRef:
  "soundRef (snd (tick u ts out w)) =
     (case soundRef w of
        Some s \<Rightarrow> Some s
      | None \<Rightarrow>
          (case (position out, response out, body out, created out) of
             (Resolved c, Resolved res, Resolved (hit # hits), Resolved s) \<Rightarrow>
               if ok res then Some s else None
           | _ \<Rightarrow> None))"
  by (simp add: tick_def tick_finish_def tick_step_defs beep_defs
      split: settled.splits list.splits option.splits)

subsection \<open>The requests of one tick\<close>

text \<open>
  C9. Whatever the coordinates and however the promises settle, one \<^verbatim>\<open>tick\<close> makes
  exactly one location request and, when the position is obtained, exactly one backend
  request after it; every other call it makes goes to the audio library. The URL is
  \<^verbatim>\<open>BACKEND_BASE_URL\<close>, then \<^verbatim>\<open>/alerts?lat=\<close>, the latitude, \<^verbatim>\<open>&lon=\<close>, the longitude
  and \<^verbatim>\<open>&radiusMeters=2000\<close>; \<^verbatim>\<open>index.tsx\<close> appends \<^verbatim>\<open>&demo=true\<close>, \<^verbatim>\<open>part_000\<close> does
  not.
\<close>

theorem tick_requests:
  "(\<exists>audio. calls (snd (tick u ts out w)) =
        calls w @ GetCurrentPosition #
          (case position out of
             Rejected \<Rightarrow> []
           | Resolved c \<Rightarrow>
               [Fetch (u @ ''/alerts?lat='' @ ToString ts (latitude c) @ ''&lon=''
                  @ ToString ts (longitude c) @ ''&radiusMeters=2000'')])
          @ audio
      \<and> filter is_request audio = [])
    \<and> (\<exists>audio. calls (snd (tabs_tick u ts tout v)) =
        calls v @ GetCurrentPosition #
          (case position tout of
             Rejected \<Rightarrow> []
           | Resolved c \<Rightarrow>
               [Fetch (u @ ''/alerts?lat='' @ ToString ts (latitude c) @ ''&lon=''
                  @ ToString ts (longitude c) @ ''&radiusMeters=2000&demo=true'')])
          @ audio
      \<and> filter is_request audio = [])"
proof
  show "\<exists>audio. calls (snd (tick u ts out w)) =
        calls w @ GetCurrentPosition #
          (case position out of
             Rejected \<Rightarrow> []
           | Resolved c \<Rightarrow>
               [Fetch (u @ ''/alerts?lat='' @ ToString ts (latitude c) @ ''&lon=''
                  @ ToString ts (longitude c) @ ''&radiusMeters=2000'')])
          @ audio
      \<and> filter is_request audio = []"
    by (simp add: tick_calls alerts_url_def
        split: settled.splits list.splits option.splits)
  show "\<exists>audio. calls (snd (tabs_tick u ts tout v)) =
        calls v @ GetCurrentPosition #
          (case position tout of
             Rejected \<Rightarrow> []
           | Resolved c \<Rightarrow>
               [Fetch (u @ ''/alerts?lat='' @ ToString ts (latitude c) @ ''&lon=''
                  @ ToString ts (longitude c) @ ''&radiusMeters=2000&demo=true'')])
          @ audio
      \<and> filter is_request audio = []"
    by (simp add: tabs_tick_calls tabs_alerts_url_def
        split: settled.splits list.splits option.splits)
qed

subsection \<open>Auxiliary facts about the buttons and the event loop\<close>

lemma stopDriving_eq:
  "stopDriving w =
     w\<lparr>driving := False, intervals := intervals w - set_option (timerRef w), timerRef := None,
       busy := False, status := ''Parado''\<rparr>"
  by (simp add: stopDriving_def clearInterval_def Let_def split: option.splits)

lemma call_tick_eq:
  "call_tick w =
     w\<lparr>busy := True, status := ''Obteniendo ubicaci'' @ oacute @ ''n'' @ ellipsis,
       calls := calls w @ [GetCurrentPosition], inflight := inflight w @ [AwaitPosition]\<rparr>"
  by (simp add: call_tick_def tick_enter_def tick_handlers_def call_def)

lemma startDriving_eq:
  "startDriving w =
     w\<lparr>driving := True, busy := True,
       status := ''Obteniendo ubicaci'' @ oacute @ ''n'' @ ellipsis,
       calls := calls w @ [GetCurrentPosition], inflight := inflight w @ [AwaitPosition],
       intervals := insert (nextTimeout w) (intervals w), nextTimeout := Suc (nextTimeout w),
       timerRef := Some (nextTimeout w)\<rparr>"
  by (simp add: startDriving_def setInterval_def call_tick_eq Let_def)





lemma step_with_Settles:
  assumes "step_with resume (Settles i r) w = Some w'"
  obtains p w1 where "resume (inflight w ! i) r w = Some (p, w1)"
    and "w' = w1\<lparr>inflight := (case p of Await pc \<Rightarrow> (inflight w1)[i := pc]
            | Done c \<Rightarrow> take i (inflight w1) @ drop (Suc i) (inflight w1))\<rparr>"
  using assms by (auto split: if_splits option.splits progress.splits prod.splits)













subsection \<open>Stopping the session\<close>



subsection \<open>A tick in flight when the session stops\<close>

lemma tick_resume_driving:
  "tick_resume u ts pc r (w\<lparr>driving := b\<rparr>) =
     map_option (\<lambda>(p, w'). (p, w'\<lparr>driving := b\<rparr>)) (tick_resume u ts pc r w)"
  by (induction u ts pc r w rule: tick_resume.induct;
      auto simp: tick_step_defs beep_defs split: settled.splits list.splits option.splits)

lemma stopDriving_inflight: "inflight (stopDriving w) = inflight w"
  by (simp add: stopDriving_eq)

lemma tick_resume_enabled_after_stop:
  "(tick_resume u ts pc r (stopDriving w) = None) = (tick_resume u ts pc r w = None)"
  by (induction u ts pc r w rule: tick_resume.induct; simp)

lemma step_Settles_enabled_after_stop:
  "(step u ts (Settles i r) (stopDriving v) = None) = (step u ts (Settles i r) v = None)"
proof -
  have "(tick_resume u ts (inflight v ! i) r (stopDriving v) = None)
      = (tick_resume u ts (inflight v ! i) r v = None)"
    by (rule tick_resume_enabled_after_stop)
  then show ?thesis
    by (auto simp: step_def stopDriving_inflight
        split: option.splits progress.splits prod.splits)
qed

lemma tick_finish_lastHit_after_stop:
  "lastHit (snd (tick_finish u ts out (Await pc, stopDriving w)))
     = lastHit (snd (tick_finish u ts out (Await pc, w)))"
proof (cases pc)
  case (AwaitBeep b)
  then show ?thesis
    by (cases b;
        simp add: tick_finish_def tick_step_defs beep_defs stopDriving_eq
          split: settled.splits list.splits option.splits)
qed (simp_all add: tick_finish_def tick_step_defs beep_defs stopDriving_eq
      split: settled.splits list.splits option.splits)

lemma tick_finish_busy:
  "busy (snd (tick_finish u ts out (Await pc, w\<lparr>busy := b\<rparr>))) = False"
proof (cases pc)
  case (AwaitBeep b)
  then show ?thesis
    by (cases b;
        simp add: tick_finish_def tick_step_defs beep_defs
          split: settled.splits list.splits option.splits)
qed (simp_all add: tick_finish_def tick_step_defs beep_defs
      split: settled.splits list.splits option.splits)

lemma tick_finish_driving_after_stop:
  "driving (snd (tick_finish u ts out (Await pc, stopDriving w))) = False"
proof (cases pc)
  case (AwaitBeep b)
  then show ?thesis
    by (cases b;
        simp add: tick_finish_def tick_step_defs beep_defs stopDriving_eq
          split: settled.splits list.splits option.splits)
qed (simp_all add: tick_finish_def tick_step_defs beep_defs stopDriving_eq
      split: settled.splits list.splits option.splits)

lemma tick_finish_status_after_stop:
  assumes "pc = AwaitPosition \<or> pc = AwaitFetch \<or> pc = AwaitJson"
  shows "status (snd (tick_finish u ts out (Await pc, stopDriving w)))
      = status (snd (tick_finish u ts out (Await pc, w)))"
    and "status (snd (tick_finish u ts out (Await pc, stopDriving w))) \<noteq> ''Parado''"
proof -
  from assms
  show "status (snd (tick_finish u ts out (Await pc, stopDriving w)))
      = status (snd (tick_finish u ts out (Await pc, w)))"
    by (elim disjE;
        simp add: tick_finish_def tick_step_defs beep_defs stopDriving_eq
          split: settled.splits list.splits option.splits)
  from assms
  show "status (snd (tick_finish u ts out (Await pc, stopDriving w))) \<noteq> ''Parado''"
    by (elim disjE;
        simp add: tick_finish_def tick_step_defs beep_defs stopDriving_eq
          split: settled.splits list.splits option.splits)
qed

lemma tick_finish_alert_after_stop:
  assumes "body out = Resolved (hit # hits)"
  shows "lastHit (snd (tick_finish u ts out (Await AwaitJson, stopDriving w))) = Some hit"
    and "status (snd (tick_finish u ts out (Await AwaitJson, stopDriving w))) = ''ALERTA''"
  using assms
  by (auto simp: tick_finish_def tick_step_defs beep_defs stopDriving_eq
      split: settled.splits list.splits option.splits)

text \<open>
  C5. No resumption of \<^verbatim>\<open>tick\<close> reads the driving flag: with the flag set to any value
  it does what it does otherwise. \<^verbatim>\<open>stopDriving\<close> leaves a suspended \<^verbatim>\<open>tick\<close> suspended,
  and the settlement that would resume it before the stop resumes it after. Finished
  from a stopped screen, a \<^verbatim>\<open>tick\<close> stores the last alert it would have stored without
  the stop, assigns false to the busy flag whatever it held, and leaves the driving flag
  false; a \<^verbatim>\<open>tick\<close> that was waiting for the position, the response or the body also
  sets the status it would have set, which is not \<^verbatim>\<open>Parado\<close>. With a non-empty array
  arriving after the stop, the status is \<^verbatim>\<open>ALERTA\<close> and the first hit is stored.
\<close>

theorem tick_in_flight_writes_after_stop:
  "tick_resume u ts pc r (w\<lparr>driving := b\<rparr>) =
      map_option (\<lambda>(p, w'). (p, w'\<lparr>driving := b\<rparr>)) (tick_resume u ts pc r w)
    \<and> inflight (stopDriving w) = inflight w
    \<and> (step u ts (Settles i r) (stopDriving v) = None) = (step u ts (Settles i r) v = None)
    \<and> lastHit (snd (tick_finish u ts out (Await pc, stopDriving w)))
        = lastHit (snd (tick_finish u ts out (Await pc, w)))
    \<and> busy (snd (tick_finish u ts out (Await pc, w\<lparr>busy := b\<rparr>))) = False
    \<and> driving (snd (tick_finish u ts out (Await pc, stopDriving w))) = False
    \<and> (pc = AwaitPosition \<or> pc = AwaitFetch \<or> pc = AwaitJson \<longrightarrow>
          status (snd (tick_finish u ts out (Await pc, stopDriving w)))
            = status (snd (tick_finish u ts out (Await pc, w)))
          \<and> status (snd (tick_finish u ts out (Await pc, stopDriving w))) \<noteq> ''Parado'')
    \<and> (body out = Resolved (hit # hits) \<longrightarrow>
          lastHit (snd (tick_finish u ts out (Await AwaitJson, stopDriving w))) = Some hit
          \<and> status (snd (tick_finish u ts out (Await AwaitJson, stopDriving w))) = ''ALERTA'')"
proof -
  have st: "status (snd (tick_finish u ts out (Await pc, stopDriving w)))
            = status (snd (tick_finish u ts out (Await pc, w)))
          \<and> status (snd (tick_finish u ts out (Await pc, stopDriving w))) \<noteq> ''Parado''"
    if "pc = AwaitPosition \<or> pc = AwaitFetch \<or> pc = AwaitJson"
    using that tick_finish_status_after_stop by blast
  have al: "lastHit (snd (tick_finish u ts out (Await AwaitJson, stopDriving w))) = Some hit
          \<and> status (snd (tick_finish u ts out (Await AwaitJson, stopDriving w))) = ''ALERTA''"
    if "body out = Resolved (hit # hits)"
    using that tick_finish_alert_after_stop by blast
  have dr: "tick_resume u ts pc r (w\<lparr>driving := b\<rparr>) =
      map_option (\<lambda>(p, w'). (p, w'\<lparr>driving := b\<rparr>)) (tick_resume u ts pc r w)"
    by (rule tick_resume_driving)
  have fl: "inflight (stopDriving w) = inflight w"
    by (rule stopDriving_inflight)
  have en: "(step u ts (Settles i r) (stopDriving v) = None) = (step u ts (Settles i r) v = None)"
    by (rule step_Settles_enabled_after_stop)
  have lh: "lastHit (snd (tick_finish u ts out (Await pc, stopDriving w)))
        = lastHit (snd (tick_finish u ts out (Await pc, w)))"
    by (rule tick_finish_lastHit_after_stop)
  have bu: "busy (snd (tick_finish u ts out (Await pc, w\<lparr>busy := b\<rparr>))) = False"
    by (rule tick_finish_busy)
  have dv: "driving (snd (tick_finish u ts out (Await pc, stopDriving w))) = False"
    by (rule tick_finish_driving_after_stop)
  from dr fl en lh bu dv st al show ?thesis
    by blast
qed

theorem tick_in_flight_writes_after_stop_witness:
  "status (stopDriving (startDriving initialHome)) = ''Parado''
    \<and> driving (stopDriving (startDriving initialHome)) = False
    \<and> inflight (stopDriving (startDriving initialHome)) = [AwaitPosition]
    \<and> body scenario = Resolved (scenario_hit # [])
    \<and> status (snd (tick_finish scenario_url scenario_ts scenario
          (Await AwaitPosition, stopDriving (startDriving initialHome)))) = ''ALERTA''
    \<and> lastHit (snd (tick_finish scenario_url scenario_ts scenario
          (Await AwaitPosition, stopDriving (startDriving initialHome)))) = Some scenario_hit
    \<and> driving (snd (tick_finish scenario_url scenario_ts scenario
          (Await AwaitPosition, stopDriving (startDriving initialHome)))) = False
    \<and> lastHit (snd (tick_finish scenario_url scenario_ts scenario
          (Await AwaitJson, stopDriving (startDriving initialHome)))) = Some scenario_hit
    \<and> status (snd (tick_finish scenario_url scenario_ts scenario
          (Await AwaitJson, stopDriving (startDriving initialHome)))) = ''ALERTA''"
proof -
  have stopped: "status (stopDriving (startDriving initialHome)) = ''Parado''"
    "driving (stopDriving (startDriving initialHome)) = False"
    "inflight (stopDriving (startDriving initialHome)) = [AwaitPosition]"
    by (simp_all add: stopDriving_eq startDriving_eq initialHome_def)
  have b: "body scenario = Resolved (scenario_hit # [])"
    by (simp add: scenario_def)
  have unstopped:
    "status (snd (tick_finish scenario_url scenario_ts scenario
          (Await AwaitPosition, startDriving initialHome))) = ''ALERTA''"
    "lastHit (snd (tick_finish scenario_url scenario_ts scenario
          (Await AwaitPosition, startDriving initialHome))) = Some scenario_hit"
    by (simp_all add: tick_finish_def tick_step_defs beep_defs startDriving_eq initialHome_def
        scenario_def ok_def)
  note main = tick_in_flight_writes_after_stop
    [where u = scenario_url and ts = scenario_ts and pc = AwaitPosition
      and w = "startDriving initialHome" and out = scenario and hit = scenario_hit
      and hits = "[]"]
  from main have same:
    "status (snd (tick_finish scenario_url scenario_ts scenario
          (Await AwaitPosition, stopDriving (startDriving initialHome))))
      = status (snd (tick_finish scenario_url scenario_ts scenario
          (Await AwaitPosition, startDriving initialHome)))"
    "lastHit (snd (tick_finish scenario_url scenario_ts scenario
          (Await AwaitPosition, stopDriving (startDriving initialHome))))
      = lastHit (snd (tick_finish scenario_url scenario_ts scenario
          (Await AwaitPosition, startDriving initialHome)))"
    "driving (snd (tick_finish scenario_url scenario_ts scenario
          (Await AwaitPosition, stopDriving (startDriving initialHome)))) = False"
    by blast+
  from main b have late:
    "lastHit (snd (tick_finish scenario_url scenario_ts scenario
          (Await AwaitJson, stopDriving (startDriving initialHome)))) = Some scenario_hit"
    "status (snd (tick_finish scenario_url scenario_ts scenario
          (Await AwaitJson, stopDriving (startDriving initialHome)))) = ''ALERTA''"
    by blast+
  from stopped b same late unstopped show ?thesis by simp
qed

subsection \<open>Starting twice\<close>

text \<open>
  C10. When \<^verbatim>\<open>startDriving\<close> is called while \<^verbatim>\<open>timerRef\<close> holds an armed interval
  (and \<^verbatim>\<open>setInterval\<close> returns a handle other than that one), \<^verbatim>\<open>timerRef\<close> is
  overwritten with the new handle and both intervals are armed. The \<^verbatim>\<open>stopDriving\<close>
  that follows disarms the new one only: the earlier interval stays armed while
  \<^verbatim>\<open>timerRef\<close> is empty and \<^verbatim>\<open>driving\<close> is false, and when it fires (on the screen
  of either file) a \<^verbatim>\<open>tick\<close> begins and makes its location request.
\<close>

theorem startDriving_twice_leaks_interval:
  assumes "timerRef w = Some t" and "t \<in> intervals w" and "t \<noteq> nextTimeout w"
  shows "timerRef (startDriving w) = Some (nextTimeout w)
    \<and> t \<in> intervals (startDriving w)
    \<and> nextTimeout w \<in> intervals (startDriving w)
    \<and> t \<in> intervals (stopDriving (startDriving w))
    \<and> nextTimeout w \<notin> intervals (stopDriving (startDriving w))
    \<and> timerRef (stopDriving (startDriving w)) = None
    \<and> driving (stopDriving (startDriving w)) = False
    \<and> step_with resume (TimerFires t) (stopDriving (startDriving w))
        = Some (call_tick (stopDriving (startDriving w)))
    \<and> calls (call_tick (stopDriving (startDriving w)))
        = calls (stopDriving (startDriving w)) @ [GetCurrentPosition]
    \<and> inflight (call_tick (stopDriving (startDriving w)))
        = inflight (stopDriving (startDriving w)) @ [AwaitPosition]"
  using assms by (simp add: stopDriving_eq startDriving_eq call_tick_eq)

theorem startDriving_twice_leaks_interval_witness:
  "timerRef (startDriving initialHome) = Some 1
    \<and> 1 \<in> intervals (startDriving initialHome)
    \<and> 1 \<noteq> nextTimeout (startDriving initialHome)
    \<and> timerRef (startDriving (startDriving initialHome)) = Some 2
    \<and> intervals (startDriving (startDriving initialHome)) = {1, 2}
    \<and> intervals (stopDriving (startDriving (startDriving initialHome))) = {1}
    \<and> timerRef (stopDriving (startDriving (startDriving initialHome))) = None
    \<and> driving (stopDriving (startDriving (startDriving initialHome))) = False
    \<and> step scenario_url scenario_ts (TimerFires 1)
          (stopDriving (startDriving (startDriving initialHome)))
        = Some (call_tick (stopDriving (startDriving (startDriving initialHome))))
    \<and> calls (call_tick (stopDriving (startDriving (startDriving initialHome))))
        = [GetCurrentPosition, GetCurrentPosition, GetCurrentPosition]"
proof -
  have a: "timerRef (startDriving initialHome) = Some 1"
    and b: "1 \<in> intervals (startDriving initialHome)"
    and c: "1 \<noteq> nextTimeout (startDriving initialHome)"
    and n: "nextTimeout (startDriving initialHome) = 2"
    by (simp_all add: startDriving_eq initialHome_def)
  note main = startDriving_twice_leaks_interval
    [OF a b c, of "tick_resume scenario_url scenario_ts", unfolded n, folded step_def]
  have i2: "intervals (startDriving (startDriving initialHome)) = {1, 2}"
    and i3: "intervals (stopDriving (startDriving (startDriving initialHome))) = {1}"
    and cs: "calls (call_tick (stopDriving (startDriving (startDriving initialHome))))
        = [GetCurrentPosition, GetCurrentPosition, GetCurrentPosition]"
    by (auto simp: stopDriving_eq startDriving_eq call_tick_eq initialHome_def)
  from a b c main i2 i3 cs show ?thesis by simp
qed

subsection \<open>The notification player over the runs of the screen\<close>

lemma creating_zero_iff: "creating w = 0 \<longleftrightarrow> AwaitBeep AwaitCreate \<notin> set (inflight w)"
  by (auto simp: creating_def filter_empty_conv)

lemma count_update:
  "i < length xs \<Longrightarrow>
     length (filter P (xs[i := y])) + (if P (xs ! i) then 1 else 0)
       = length (filter P xs) + (if P y then 1 else 0)"
proof (induction xs arbitrary: i)
  case Nil
  then show ?case by simp
next
  case (Cons x xs)
  then show ?case by (cases i) auto
qed

lemma count_remove:
  "i < length xs \<Longrightarrow>
     length (filter P (take i xs @ drop (Suc i) xs)) + (if P (xs ! i) then 1 else 0)
       = length (filter P xs)"
proof (induction xs arbitrary: i)
  case Nil
  then show ?case by simp
next
  case (Cons x xs)
  then show ?case by (cases i) auto
qed

lemma tick_resume_sound:
  assumes "tick_resume u ts pc r w = Some (p, w1)"
  shows "inflight w1 = inflight w"
    and "pc \<noteq> AwaitBeep AwaitCreate \<Longrightarrow> soundRef w1 = soundRef w"
    and "pc = AwaitBeep AwaitCreate \<Longrightarrow> p \<noteq> Await (AwaitBeep AwaitCreate)"
    and "p = Await (AwaitBeep AwaitCreate) \<Longrightarrow> soundRef w1 = None"
  using assms
  by (induction u ts pc r w rule: tick_resume.induct;
      auto simp: tick_step_defs beep_defs
        split: settled.splits list.splits option.splits if_splits)+

lemma tick_resume_reuses:
  assumes "tick_resume u ts pc r w = Some (p, w1)" and "soundRef w = Some s"
    and "pc \<noteq> AwaitBeep AwaitCreate"
  shows "p \<noteq> Await (AwaitBeep AwaitCreate)
    \<and> (\<exists>new. calls w1 = calls w @ new \<and> CreateAsync \<notin> set new
          \<and> (\<forall>x. ReplayAsync x \<in> set new \<longrightarrow> x = s))"
  using assms
  by (induction u ts pc r w rule: tick_resume.induct;
      auto simp: tick_step_defs beep_defs
        split: settled.splits list.splits option.splits if_splits)

lemma stable_step:
  assumes "soundRef w = Some s" and "creating w = 0"
    and "step_with (tick_resume u ts) e w = Some w'"
  shows "soundRef w' = Some s \<and> creating w' = 0
    \<and> (\<exists>new. calls w' = calls w @ new \<and> CreateAsync \<notin> set new
          \<and> (\<forall>x. ReplayAsync x \<in> set new \<longrightarrow> x = s))"
proof (cases e)
  case (Settles i r)
  with assms(3) have "step_with (tick_resume u ts) (Settles i r) w = Some w'" by simp
  then obtain p w1 where res: "tick_resume u ts (inflight w ! i) r w = Some (p, w1)"
    and w': "w' = w1\<lparr>inflight := (case p of Await pc \<Rightarrow> (inflight w1)[i := pc]
            | Done c \<Rightarrow> take i (inflight w1) @ drop (Suc i) (inflight w1))\<rparr>"
    by (rule step_with_Settles)
  from assms(3) Settles have i: "i < length (inflight w)"
    by (auto split: if_splits)
  from assms(2) have none: "AwaitBeep AwaitCreate \<notin> set (inflight w)"
    by (simp add: creating_zero_iff)
  with i have pc: "inflight w ! i \<noteq> AwaitBeep AwaitCreate"
    by (metis nth_mem)
  note snd = tick_resume_sound [OF res]
  note reuse = tick_resume_reuses [OF res assms(1) pc]
  have "AwaitBeep AwaitCreate \<notin> set (inflight w')"
  proof (cases p)
    case (Await pc')
    with reuse have "pc' \<noteq> AwaitBeep AwaitCreate" by simp
    with none snd(1) Await show ?thesis
      using set_update_subset_insert [of "inflight w" i pc'] by (auto simp: w')
  next
    case (Done c)
    with none snd(1) show ?thesis
      by (auto simp: w' dest: in_set_takeD in_set_dropD)
  qed
  then have "creating w' = 0"
    by (simp add: creating_zero_iff)
  moreover from snd(2) [OF pc] assms(1) have "soundRef w' = Some s"
    by (simp add: w')
  moreover from reuse have "\<exists>new. calls w' = calls w @ new \<and> CreateAsync \<notin> set new
          \<and> (\<forall>x. ReplayAsync x \<in> set new \<longrightarrow> x = s)"
    by (simp add: w')
  ultimately show ?thesis by blast
qed (use assms in \<open>auto simp: creating_def stopDriving_eq startDriving_eq call_tick_eq
      split: if_splits\<close>)

lemma stable_run:
  "soundRef w = Some s \<Longrightarrow> creating w = 0 \<Longrightarrow> run_with (tick_resume u ts) es w = Some w' \<Longrightarrow>
     soundRef w' = Some s \<and> creating w' = 0
     \<and> (\<exists>new. calls w' = calls w @ new \<and> CreateAsync \<notin> set new
           \<and> (\<forall>x. ReplayAsync x \<in> set new \<longrightarrow> x = s))"
proof (induction es arbitrary: w)
  case Nil
  then show ?case by simp
next
  case (Cons e es)
  from Cons.prems(3) obtain w1 where st: "step_with (tick_resume u ts) e w = Some w1"
    and r: "run_with (tick_resume u ts) es w1 = Some w'"
    by (auto split: option.splits)
  from stable_step [OF Cons.prems(1) Cons.prems(2) st]
  obtain new1 where s1: "soundRef w1 = Some s" and c1: "creating w1 = 0"
    and n1: "calls w1 = calls w @ new1" "CreateAsync \<notin> set new1"
      "\<forall>x. ReplayAsync x \<in> set new1 \<longrightarrow> x = s"
    by blast
  from Cons.IH [OF s1 c1 r]
  obtain new2 where s2: "soundRef w' = Some s" and c2: "creating w' = 0"
    and n2: "calls w' = calls w1 @ new2" "CreateAsync \<notin> set new2"
      "\<forall>x. ReplayAsync x \<in> set new2 \<longrightarrow> x = s"
    by blast
  from n1 n2 have "calls w' = calls w @ (new1 @ new2) \<and> CreateAsync \<notin> set (new1 @ new2)
      \<and> (\<forall>x. ReplayAsync x \<in> set (new1 @ new2) \<longrightarrow> x = s)"
    by auto
  with s2 c2 show ?case by blast
qed

lemma one_creation_now: "one_creation resume es w \<Longrightarrow> creating w \<le> 1"
  by (cases es) simp_all

lemma pending_step:
  assumes k: "creating w = 0 \<or> soundRef w = None"
    and st: "step_with (tick_resume u ts) e w = Some w'"
    and le: "creating w \<le> 1" and le': "creating w' \<le> 1"
  shows "creating w' = 0 \<or> soundRef w' = None"
proof (cases e)
  case (Settles i r)
  with st have "step_with (tick_resume u ts) (Settles i r) w = Some w'" by simp
  then obtain p w1 where res: "tick_resume u ts (inflight w ! i) r w = Some (p, w1)"
    and w': "w' = w1\<lparr>inflight := (case p of Await pc \<Rightarrow> (inflight w1)[i := pc]
            | Done c \<Rightarrow> take i (inflight w1) @ drop (Suc i) (inflight w1))\<rparr>"
    by (rule step_with_Settles)
  from st Settles have i: "i < length (inflight w)"
    by (auto split: if_splits)
  note snd = tick_resume_sound [OF res]
  let ?a = "AwaitBeep AwaitCreate"
  let ?P = "\<lambda>pc. pc = ?a"
  show ?thesis
  proof (cases "inflight w ! i = ?a")
    case True
    with snd(3) have np: "p \<noteq> Await ?a" by simp
    have "creating w' + 1 = creating w"
    proof (cases p)
      case (Await pc')
      with np have "pc' \<noteq> ?a" by simp
      with count_update [OF i, of ?P pc'] True Await snd(1) show ?thesis
        by (simp add: creating_def w')
    next
      case (Done c)
      with count_remove [OF i, of ?P] True snd(1) show ?thesis
        by (simp add: creating_def w')
    qed
    with le show ?thesis by simp
  next
    case False
    with snd(2) have same: "soundRef w1 = soundRef w" by simp
    show ?thesis
    proof (cases "p = Await ?a")
      case True
      with snd(4) show ?thesis by (simp add: w')
    next
      case np: False
      have "creating w' = creating w"
      proof (cases p)
        case (Await pc')
        with np have "pc' \<noteq> ?a" by simp
        with count_update [OF i, of ?P pc'] False Await snd(1) show ?thesis
          by (simp add: creating_def w')
      next
        case (Done c)
        with count_remove [OF i, of ?P] False snd(1) show ?thesis
          by (simp add: creating_def w')
      qed
      with k same show ?thesis by (auto simp: w')
    qed
  qed
qed (use assms in \<open>auto simp: creating_def stopDriving_eq startDriving_eq call_tick_eq
      split: if_splits\<close>)

lemma pending_run:
  "creating w = 0 \<or> soundRef w = None \<Longrightarrow> one_creation (tick_resume u ts) es w \<Longrightarrow>
     run_with (tick_resume u ts) es w = Some w' \<Longrightarrow> creating w' = 0 \<or> soundRef w' = None"
proof (induction es arbitrary: w)
  case Nil
  then show ?case by simp
next
  case (Cons e es)
  from Cons.prems(3) obtain w1 where st: "step_with (tick_resume u ts) e w = Some w1"
    and r: "run_with (tick_resume u ts) es w1 = Some w'"
    by (auto split: option.splits)
  from Cons.prems(2) st have le: "creating w \<le> 1" and oc: "one_creation (tick_resume u ts) es w1"
    by simp_all
  from oc have le': "creating w1 \<le> 1" by (rule one_creation_now)
  from Cons.prems(1) st le le' have "creating w1 = 0 \<or> soundRef w1 = None"
    by (rule pending_step)
  from this oc r show ?case by (rule Cons.IH)
qed

text \<open>
  C8. \<^verbatim>\<open>beep\<close> asks the audio library for a sound whenever \<^verbatim>\<open>soundRef\<close> is empty at
  the call, stores the sound it gets and replays it; when \<^verbatim>\<open>soundRef\<close> holds a sound at
  the call, \<^verbatim>\<open>beep\<close> only replays that one and leaves the ref alone. A rejection of
  either audio call ends \<^verbatim>\<open>beep\<close> normally and changes nothing. On the alert path of
  \<^verbatim>\<open>tick\<close>, whatever the audio calls do, \<^verbatim>\<open>tick\<close> ends normally with the status
  \<^verbatim>\<open>ALERTA\<close> and the first hit stored: the handler of \<^verbatim>\<open>tick\<close> is not reached. Over
  the runs of the screen: from any state in which \<^verbatim>\<open>soundRef\<close> holds a sound and no
  creation is pending, whatever happens next, \<^verbatim>\<open>soundRef\<close> keeps that sound, no sound
  is asked for again and every replay is of that sound; and in every run from the
  initial screen in which at most one creation is pending at any moment, no creation is
  pending once \<^verbatim>\<open>soundRef\<close> holds a sound.
\<close>

theorem beep_reuses_without_overlap:
  assumes "position out = Resolved c" and "response out = Resolved res" and "ok res"
    and "body out = Resolved (hit # hits)"
  shows "(soundRef w = None \<longrightarrow> beep w = (Await AwaitCreate, call CreateAsync w))
    \<and> beep_created (Resolved s) w =
        (Await AwaitReplay, call (ReplayAsync s) (w\<lparr>soundRef := Some s\<rparr>))
    \<and> (soundRef w = Some s \<longrightarrow> beep w = (Await AwaitReplay, call (ReplayAsync s) w))
    \<and> beep_created Rejected w = (Done Normal, w)
    \<and> beep_replayed r w = (Done Normal, w)
    \<and> status (snd (tick u ts out v)) = ''ALERTA''
    \<and> lastHit (snd (tick u ts out v)) = Some hit
    \<and> fst (tick u ts out v) = Done Normal
    \<and> (soundRef v = None \<and> created out = Resolved s \<longrightarrow>
          soundRef (snd (tick u ts out v)) = Some s
          \<and> calls (snd (tick u ts out v)) =
              calls v @ [GetCurrentPosition, Fetch (alerts_url u ts c), CreateAsync, ReplayAsync s])
    \<and> (soundRef v = Some s \<longrightarrow>
          soundRef (snd (tick u ts out v)) = Some s
          \<and> calls (snd (tick u ts out v)) =
              calls v @ [GetCurrentPosition, Fetch (alerts_url u ts c), ReplayAsync s])
    \<and> (soundRef v0 = Some s \<and> creating v0 = 0 \<and> run u ts es' v0 = Some v1 \<longrightarrow>
          soundRef v1 = Some s \<and> creating v1 = 0
          \<and> (\<exists>new. calls v1 = calls v0 @ new \<and> CreateAsync \<notin> set new
                \<and> (\<forall>x. ReplayAsync x \<in> set new \<longrightarrow> x = s)))
    \<and> (run u ts es initialHome = Some v2 \<and> one_creation (tick_resume u ts) es initialHome
          \<and> soundRef v2 = Some s \<longrightarrow> creating v2 = 0)"
proof -
  have first: "beep w = (Await AwaitCreate, call CreateAsync w)" if "soundRef w = None"
    using that by (simp add: beep_defs)
  have made: "beep_created (Resolved s) w =
        (Await AwaitReplay, call (ReplayAsync s) (w\<lparr>soundRef := Some s\<rparr>))"
    by (simp add: beep_defs)
  have later: "beep w = (Await AwaitReplay, call (ReplayAsync s) w)" if "soundRef w = Some s"
    using that by (simp add: beep_defs)
  have silent: "beep_created Rejected w = (Done Normal, w)"
    "beep_replayed r w = (Done Normal, w)"
    by (simp_all add: beep_defs split: settled.splits)
  have lazy: "soundRef (snd (tick u ts out v)) = Some s
          \<and> calls (snd (tick u ts out v)) =
              calls v @ [GetCurrentPosition, Fetch (alerts_url u ts c), CreateAsync, ReplayAsync s]"
    if "soundRef v = None \<and> created out = Resolved s"
    using that assms by (simp add: tick_calls tick_soundRef)
  have reuse: "soundRef (snd (tick u ts out v)) = Some s
          \<and> calls (snd (tick u ts out v)) =
              calls v @ [GetCurrentPosition, Fetch (alerts_url u ts c), ReplayAsync s]"
    if "soundRef v = Some s"
    using that assms by (simp add: tick_calls tick_soundRef)
  have stable: "soundRef v1 = Some s \<and> creating v1 = 0
          \<and> (\<exists>new. calls v1 = calls v0 @ new \<and> CreateAsync \<notin> set new
                \<and> (\<forall>x. ReplayAsync x \<in> set new \<longrightarrow> x = s))"
    if h: "soundRef v0 = Some s \<and> creating v0 = 0 \<and> run u ts es' v0 = Some v1"
  proof -
    from h have a: "soundRef v0 = Some s" and b: "creating v0 = 0"
      and c: "run_with (tick_resume u ts) es' v0 = Some v1"
      by (simp_all add: run_def)
    from a b c show ?thesis by (rule stable_run)
  qed
  have settled: "creating v2 = 0"
    if h: "run u ts es initialHome = Some v2 \<and> one_creation (tick_resume u ts) es initialHome
          \<and> soundRef v2 = Some s"
  proof -
    have a: "creating initialHome = 0 \<or> soundRef initialHome = None"
      by (simp add: initialHome_def)
    from h have b: "one_creation (tick_resume u ts) es initialHome"
      and c: "run_with (tick_resume u ts) es initialHome = Some v2"
      by (simp_all add: run_def)
    from a b c have "creating v2 = 0 \<or> soundRef v2 = None"
      by (rule pending_run)
    with h show ?thesis by simp
  qed
  from first made later silent tick_alert [OF assms, of u ts v] lazy reuse stable settled
  show ?thesis by blast
qed

theorem beep_reuses_without_overlap_witness:
  "position scenario_mute = Resolved scenario_coords
    \<and> response scenario_mute = Resolved \<lparr>res_status = 200\<rparr>
    \<and> ok \<lparr>res_status = 200\<rparr>
    \<and> body scenario_mute = Resolved (scenario_hit # [])
    \<and> created scenario_mute = Rejected
    \<and> soundRef initialHome = None
    \<and> beep initialHome = (Await AwaitCreate, call CreateAsync initialHome)
    \<and> soundRef (initialHome\<lparr>soundRef := Some 7\<rparr>) = Some 7
    \<and> beep (initialHome\<lparr>soundRef := Some 7\<rparr>) =
        (Await AwaitReplay, call (ReplayAsync 7) (initialHome\<lparr>soundRef := Some 7\<rparr>))
    \<and> status (snd (tick scenario_url scenario_ts scenario_mute initialHome)) = ''ALERTA''
    \<and> lastHit (snd (tick scenario_url scenario_ts scenario_mute initialHome)) = Some scenario_hit
    \<and> fst (tick scenario_url scenario_ts scenario_mute initialHome) = Done Normal
    \<and> soundRef (snd (tick scenario_url scenario_ts scenario_mute
          (initialHome\<lparr>soundRef := Some 7\<rparr>))) = Some 7
    \<and> calls (snd (tick scenario_url scenario_ts scenario_mute
          (initialHome\<lparr>soundRef := Some 7\<rparr>))) =
        calls (initialHome\<lparr>soundRef := Some 7\<rparr>)
          @ [GetCurrentPosition, Fetch (alerts_url scenario_url scenario_ts scenario_coords),
             ReplayAsync 7]
    \<and> run scenario_url scenario_ts first_alert_events initialHome = Some after_first_alert
    \<and> one_creation (tick_resume scenario_url scenario_ts) first_alert_events initialHome
    \<and> soundRef after_first_alert = Some 7
    \<and> creating after_first_alert = 0
    \<and> run scenario_url scenario_ts second_alert_events after_first_alert
        = Some after_second_alert
    \<and> soundRef after_second_alert = Some 7
    \<and> creating after_second_alert = 0
    \<and> calls after_second_alert =
        calls after_first_alert
          @ [GetCurrentPosition, Fetch (alerts_url scenario_url scenario_ts scenario_coords),
             ReplayAsync 7]"
proof -
  have p: "position scenario_mute = Resolved scenario_coords"
    and r: "response scenario_mute = Resolved \<lparr>res_status = 200\<rparr>"
    and b: "body scenario_mute = Resolved (scenario_hit # [])"
    and c: "created scenario_mute = Rejected"
    by (simp_all add: scenario_mute_def scenario_def)
  have k: "ok \<lparr>res_status = 200\<rparr>"
    by (simp add: ok_def)
  have empty: "soundRef initialHome = None"
    and full: "soundRef (initialHome\<lparr>soundRef := Some 7\<rparr>) = Some 7"
    by (simp_all add: initialHome_def)
  have r1: "run scenario_url scenario_ts first_alert_events initialHome = Some after_first_alert"
    by (simp add: first_alert_events_def after_first_alert_def run_def initialHome_def
        startDriving_eq tick_step_defs beep_defs ok_def)
  have o1: "one_creation (tick_resume scenario_url scenario_ts) first_alert_events initialHome"
    by (simp add: first_alert_events_def creating_def initialHome_def
        startDriving_eq tick_step_defs beep_defs ok_def)
  have s1: "soundRef after_first_alert = Some 7"
    and c1: "creating after_first_alert = 0"
    by (simp_all add: after_first_alert_def creating_def)
  have r2: "run scenario_url scenario_ts second_alert_events after_first_alert
        = Some after_second_alert"
    by (simp add: second_alert_events_def after_second_alert_def after_first_alert_def run_def
        call_tick_eq tick_step_defs beep_defs ok_def)
  have cs: "calls after_second_alert =
        calls after_first_alert
          @ [GetCurrentPosition, Fetch (alerts_url scenario_url scenario_ts scenario_coords),
             ReplayAsync 7]"
    by (simp add: after_second_alert_def)
  note one = beep_reuses_without_overlap
    [OF p r k b, where w = initialHome and s = 7 and u = scenario_url and ts = scenario_ts
      and v = initialHome and ?v0.0 = after_first_alert and es' = second_alert_events
      and ?v1.0 = after_second_alert and es = first_alert_events and ?v2.0 = after_first_alert]
  from one empty have first:
    "beep initialHome = (Await AwaitCreate, call CreateAsync initialHome)"
    "status (snd (tick scenario_url scenario_ts scenario_mute initialHome)) = ''ALERTA''"
    "lastHit (snd (tick scenario_url scenario_ts scenario_mute initialHome)) = Some scenario_hit"
    "fst (tick scenario_url scenario_ts scenario_mute initialHome) = Done Normal"
    by blast+
  from one s1 c1 r2 have kept:
    "soundRef after_second_alert = Some 7" "creating after_second_alert = 0"
    by blast+
  from one r1 o1 s1 have "creating after_first_alert = 0"
    by blast
  from beep_reuses_without_overlap
    [OF p r k b, where w = "initialHome\<lparr>soundRef := Some 7\<rparr>" and s = 7
      and u = scenario_url and ts = scenario_ts and v = "initialHome\<lparr>soundRef := Some 7\<rparr>"]
    full
  have two: "beep (initialHome\<lparr>soundRef := Some 7\<rparr>) =
        (Await AwaitReplay, call (ReplayAsync 7) (initialHome\<lparr>soundRef := Some 7\<rparr>))"
    "soundRef (snd (tick scenario_url scenario_ts scenario_mute
          (initialHome\<lparr>soundRef := Some 7\<rparr>))) = Some 7"
    "calls (snd (tick scenario_url scenario_ts scenario_mute
          (initialHome\<lparr>soundRef := Some 7\<rparr>))) =
        calls (initialHome\<lparr>soundRef := Some 7\<rparr>)
          @ [GetCurrentPosition, Fetch (alerts_url scenario_url scenario_ts scenario_coords),
             ReplayAsync 7]"
    by blast+
  from p r k b c empty full first two r1 o1 s1 c1 r2 kept cs show ?thesis by blast
qed

text \<open>
  Two alert ticks that overlap each find \<^verbatim>\<open>soundRef\<close> empty: the audio library is asked
  for a sound twice, the second \<^verbatim>\<open>beep\<close> replays the second sound instead of the first,
  and \<^verbatim>\<open>soundRef\<close> ends with the second.
\<close>

theorem beep_overlapping_ticks_create_twice:
  "map_option audio_calls (run scenario_url scenario_ts overlap_events initialHome)
      = Some [CreateAsync, CreateAsync, ReplayAsync 7, ReplayAsync 8]
    \<and> map_option soundRef (run scenario_url scenario_ts overlap_events initialHome)
      = Some (Some 8)
    \<and> map_option creating (run scenario_url scenario_ts (take 8 overlap_events) initialHome)
      = Some 2"
  by (simp add: overlap_events_def run_def audio_calls_def creating_def initialHome_def
      startDriving_eq call_tick_eq tick_step_defs beep_defs ok_def scenario_coords_def)

end
